theory Spec2Isabelle
  imports Main "HOL-Library.Word"
begin

section \<open>Values that cross the JNI boundary\<close>

text \<open>
  The plugin is built for a 64-bit Android ABI: \<open>jlong\<close> holds a native address,
  \<open>size_t\<close> is 64 bits wide and \<open>sizeof(float)\<close> is 4. A \<open>jfloat\<close> is only
  ever copied by \<open>memcpy\<close>, so it is kept as its 32-bit pattern. A \<open>jint\<close> is read
  as two's complement with \<open>sint\<close>.
\<close>

type_synonym jint = "32 word"
type_synonym jlong = "64 word"
type_synonym jfloat = "32 word"
type_synonym jbyte = "8 word"
type_synonym size_t = "64 word"
type_synonym jarray = nat

definition sizeof_float :: size_t where
  "sizeof_float = 4"

text \<open>The implicit conversion of a \<open>jint\<close> argument to \<open>size_t\<close> sign-extends.\<close>

definition size_t_of_jint :: "jint \<Rightarrow> size_t" where
  "size_t_of_jint i = scast i"

section \<open>Logging\<close>

datatype priority = ANDROID_LOG_DEBUG | ANDROID_LOG_ERROR

datatype log_arg = Int_arg jint | Str_arg string

record log_line =
  prio :: priority
  tag :: string
  fmt :: string
  args :: "log_arg list"

definition LOG_TAG :: string where
  "LOG_TAG = ''TFLiteUnity''"

section \<open>C++ exceptions and the outcome of a library call\<close>

text \<open>
  A thrown object either derives from \<open>std::exception\<close> (and carries \<open>what()\<close>) or
  does not. Only the former is matched by \<open>catch (const std::exception& e)\<close>.
\<close>

datatype exn = Std_exception string | Foreign_throw

datatype 'a call = Ret 'a | Throw exn

section \<open>The wrapped engine\<close>

text \<open>
  The bridge only compares a status with \<open>kTfLiteOk\<close>; every other status of the
  library is \<open>kTfLiteError\<close> here.
\<close>

datatype TfLiteStatus = kTfLiteOk | kTfLiteError

text \<open>
  A tensor as the bridge reads it: \<open>data.f\<close> (\<open>None\<close> is the null pointer) and
  \<open>dims\<close>, whose \<open>size\<close> is the length of the list and whose \<open>data\<close> are its
  elements.
\<close>

record TfLiteTensor =
  data_f :: "jfloat list option"
  dims :: "jint list"

type_synonym tensor_table = "nat \<rightharpoonup> TfLiteTensor"

text \<open>
  \<open>tflite::Interpreter\<close> is not part of this repository. Its methods are taken as
  they are called: \<open>inputs()\<close> and \<open>outputs()\<close> are the declared slot lists,
  \<open>input_tensor\<close> and \<open>output_tensor\<close> give a pointer into the tensor table (or the
  null pointer, or throw), \<open>Invoke\<close> rewrites the tensor table and gives a status
  (or throws).
\<close>

record Interpreter =
  tensors :: tensor_table
  inputs :: "nat list"
  outputs :: "nat list"
  input_tensor :: "size_t \<Rightarrow> nat option call"
  output_tensor :: "size_t \<Rightarrow> nat option call"
  Invoke :: "tensor_table \<Rightarrow> tensor_table \<times> TfLiteStatus call"
  num_threads :: int

type_synonym FlatBufferModel = "jbyte list"

text \<open>\<open>struct TFLiteContext\<close>: two owning pointers, either of which may be null.\<close>

record TFLiteContext =
  model :: "FlatBufferModel option"
  interpreter :: "Interpreter option"

text \<open>
  The static part of the library used by \<open>createInterpreter\<close>, together with the
  allocator behind \<open>std::make_unique\<close>.
\<close>

record tflite =
  new_address :: "jlong call"
  BuildFromBuffer :: "jbyte list \<Rightarrow> nat \<Rightarrow> FlatBufferModel option call"
  InterpreterBuilder :: "FlatBufferModel \<Rightarrow> Interpreter option call"
  AllocateTensors :: "Interpreter \<Rightarrow> (Interpreter \<times> TfLiteStatus) call"

section \<open>The world: native heap, Java arrays, log\<close>

record world =
  heap :: "jlong \<rightharpoonup> TFLiteContext"
  float_arrays :: "jarray \<rightharpoonup> jfloat list"
  int_arrays :: "jarray \<rightharpoonup> jint list"
  byte_arrays :: "jarray \<rightharpoonup> jbyte list"
  elements_refused :: "jarray set"
  outstanding :: "jarray list"
  logcat :: "log_line list"

text \<open>
  What a JNI entry point does: it returns (with the world it leaves), it lets a C++
  exception escape, or it has undefined behaviour (a dangling or null pointer is
  dereferenced, a copy runs outside a buffer, an invalid reference reaches JNI).
\<close>

datatype 'a result = Returns 'a world | Propagates exn world | Undefined_behaviour

definition LOGE :: "string \<Rightarrow> log_arg list \<Rightarrow> world \<Rightarrow> world" where
  "LOGE f as w =
     w\<lparr>logcat := logcat w @ [\<lparr>prio = ANDROID_LOG_ERROR, tag = LOG_TAG, fmt = f, args = as\<rparr>]\<rparr>"

definition LOGD :: "string \<Rightarrow> log_arg list \<Rightarrow> world \<Rightarrow> world" where
  "LOGD f as w =
     w\<lparr>logcat := logcat w @ [\<lparr>prio = ANDROID_LOG_DEBUG, tag = LOG_TAG, fmt = f, args = as\<rparr>]\<rparr>"

text \<open>\<open>try { body } catch (const std::exception& e) { handler }\<close>\<close>

definition catch_std_exception :: "'a result \<Rightarrow> (string \<Rightarrow> world \<Rightarrow> 'a result) \<Rightarrow> 'a result" where
  "catch_std_exception body handler =
     (case body of
        Propagates (Std_exception what) w \<Rightarrow> handler what w
      | r \<Rightarrow> r)"

subsection \<open>JNI array access\<close>

text \<open>
  \<open>Get<T>ArrayElements\<close> gives the elements (as a copy the caller may write to) or
  the null pointer; the buffer stays outstanding until it is released.
  \<open>Release<T>ArrayElements\<close> with mode 0 copies the buffer back into the array,
  with \<open>JNI_ABORT\<close> it does not; both free the buffer.
\<close>

datatype release_mode = Commit | JNI_ABORT

definition get_elements :: "(jarray \<rightharpoonup> 'a list) \<Rightarrow> world \<Rightarrow> jarray \<Rightarrow> ('a list option \<times> world) option" where
  "get_elements arrays w a =
     (case arrays a of
        None \<Rightarrow> None
      | Some xs \<Rightarrow>
          if a \<in> elements_refused w then Some (None, w)
          else Some (Some xs, w\<lparr>outstanding := a # outstanding w\<rparr>))"

definition GetFloatArrayElements :: "world \<Rightarrow> jarray \<Rightarrow> (jfloat list option \<times> world) option" where
  "GetFloatArrayElements w a = get_elements (float_arrays w) w a"

definition GetIntArrayElements :: "world \<Rightarrow> jarray \<Rightarrow> (jint list option \<times> world) option" where
  "GetIntArrayElements w a = get_elements (int_arrays w) w a"

definition GetByteArrayElements :: "world \<Rightarrow> jarray \<Rightarrow> (jbyte list option \<times> world) option" where
  "GetByteArrayElements w a = get_elements (byte_arrays w) w a"

definition ReleaseFloatArrayElements :: "world \<Rightarrow> jarray \<Rightarrow> jfloat list \<Rightarrow> release_mode \<Rightarrow> world" where
  "ReleaseFloatArrayElements w a elems mode =
     (let w' = w\<lparr>outstanding := remove1 a (outstanding w)\<rparr>
      in case mode of
           Commit \<Rightarrow> w'\<lparr>float_arrays := (float_arrays w')(a \<mapsto> elems)\<rparr>
         | JNI_ABORT \<Rightarrow> w')"

definition ReleaseIntArrayElements :: "world \<Rightarrow> jarray \<Rightarrow> jint list \<Rightarrow> release_mode \<Rightarrow> world" where
  "ReleaseIntArrayElements w a elems mode =
     (let w' = w\<lparr>outstanding := remove1 a (outstanding w)\<rparr>
      in case mode of
           Commit \<Rightarrow> w'\<lparr>int_arrays := (int_arrays w')(a \<mapsto> elems)\<rparr>
         | JNI_ABORT \<Rightarrow> w')"

definition ReleaseByteArrayElements :: "world \<Rightarrow> jarray \<Rightarrow> jbyte list \<Rightarrow> release_mode \<Rightarrow> world" where
  "ReleaseByteArrayElements w a elems mode =
     (let w' = w\<lparr>outstanding := remove1 a (outstanding w)\<rparr>
      in case mode of
           Commit \<Rightarrow> w'\<lparr>byte_arrays := (byte_arrays w')(a \<mapsto> elems)\<rparr>
         | JNI_ABORT \<Rightarrow> w')"

subsection \<open>\<open>memcpy\<close> between float buffers\<close>

text \<open>
  \<open>memcpy(dst, src, n)\<close> with \<open>n\<close> in bytes. It is defined only when both
  buffers hold \<open>n\<close> bytes; then the first \<open>n div 4\<close> floats of \<open>dst\<close> are those
  of \<open>src\<close> and the rest of \<open>dst\<close> is untouched.
\<close>

definition byte_count :: "jint \<Rightarrow> nat" where
  "byte_count n = unat (size_t_of_jint n * sizeof_float)"

definition memcpy :: "jfloat list \<Rightarrow> jfloat list \<Rightarrow> nat \<Rightarrow> jfloat list option" where
  "memcpy dst src n =
     (if n \<le> 4 * length dst \<and> n \<le> 4 * length src
      then Some (take (n div 4) src @ drop (n div 4) dst)
      else None)"

subsection \<open>Writing through a tensor pointer\<close>

definition store_tensor :: "world \<Rightarrow> jlong \<Rightarrow> TFLiteContext \<Rightarrow> Interpreter \<Rightarrow> nat \<Rightarrow> TfLiteTensor \<Rightarrow> world" where
  "store_tensor w p context interp t tensor =
     w\<lparr>heap := (heap w)(p \<mapsto>
          context\<lparr>interpreter := Some (interp\<lparr>tensors := (tensors interp)(t \<mapsto> tensor)\<rparr>)\<rparr>)\<rparr>"

section \<open>The entry points\<close>

text \<open>
  Each definition below is the function \<open>Java_com_arlinguasphere_TFLitePlugin_\<close>
  followed by the definition's name, with the world passed in and out. The body of a
  \<open>try\<close> block is a definition of its own (suffix \<open>_try\<close>).
\<close>

subsection \<open>\<open>setInputTensor\<close>\<close>

definition setInputTensor_try :: "world \<Rightarrow> jlong \<Rightarrow> TFLiteContext \<Rightarrow> jint \<Rightarrow> jarray \<Rightarrow> jint \<Rightarrow> jint result" where
  "setInputTensor_try w interpreterPtr context inputIndex data dataSize =
     (case interpreter context of
        None \<Rightarrow> Undefined_behaviour
      | Some interp \<Rightarrow>
         (case input_tensor interp (size_t_of_jint inputIndex) of
            Throw e \<Rightarrow> Propagates e w
          | Ret None \<Rightarrow> Returns (- 1) (LOGE ''Failed to get input tensor %d'' [Int_arg inputIndex] w)
          | Ret (Some t) \<Rightarrow>
             (case GetFloatArrayElements w data of
                None \<Rightarrow> Undefined_behaviour
              | Some (None, w1) \<Rightarrow> Returns (- 1) (LOGE ''Failed to get input data'' [] w1)
              | Some (Some inputData, w1) \<Rightarrow>
                 (case tensors interp t of
                    None \<Rightarrow> Undefined_behaviour
                  | Some input \<Rightarrow>
                     (case data_f input of
                        None \<Rightarrow> Undefined_behaviour
                      | Some dst \<Rightarrow>
                         (case memcpy dst inputData (byte_count dataSize) of
                            None \<Rightarrow> Undefined_behaviour
                          | Some dst' \<Rightarrow>
                              Returns 0
                                (ReleaseFloatArrayElements
                                   (store_tensor w1 interpreterPtr context interp t
                                      (input\<lparr>data_f := Some dst'\<rparr>))
                                   data inputData JNI_ABORT)))))))"

definition setInputTensor :: "world \<Rightarrow> jlong \<Rightarrow> jint \<Rightarrow> jarray \<Rightarrow> jint \<Rightarrow> jint result" where
  "setInputTensor w interpreterPtr inputIndex data dataSize =
     (if interpreterPtr = 0 then Returns (- 1) (LOGE ''Invalid interpreter pointer'' [] w)
      else case heap w interpreterPtr of
             None \<Rightarrow> Undefined_behaviour
           | Some context \<Rightarrow>
               catch_std_exception
                 (setInputTensor_try w interpreterPtr context inputIndex data dataSize)
                 (\<lambda>what w'. Returns (- 1)
                    (LOGE ''Exception setting input tensor: %s'' [Str_arg what] w')))"

subsection \<open>\<open>invoke\<close>\<close>

definition invoke_try :: "world \<Rightarrow> jlong \<Rightarrow> TFLiteContext \<Rightarrow> jint result" where
  "invoke_try w interpreterPtr context =
     (case interpreter context of
        None \<Rightarrow> Undefined_behaviour
      | Some interp \<Rightarrow>
         (case Invoke interp (tensors interp) of
            (ts, r) \<Rightarrow>
              (let w1 = w\<lparr>heap := (heap w)(interpreterPtr \<mapsto>
                           context\<lparr>interpreter := Some (interp\<lparr>tensors := ts\<rparr>)\<rparr>)\<rparr>
               in case r of
                    Throw e \<Rightarrow> Propagates e w1
                  | Ret status \<Rightarrow>
                      if status \<noteq> kTfLiteOk
                      then Returns (- 1) (LOGE ''Failed to invoke interpreter'' [] w1)
                      else Returns 0 w1)))"

definition invoke :: "world \<Rightarrow> jlong \<Rightarrow> jint result" where
  "invoke w interpreterPtr =
     (if interpreterPtr = 0 then Returns (- 1) (LOGE ''Invalid interpreter pointer'' [] w)
      else case heap w interpreterPtr of
             None \<Rightarrow> Undefined_behaviour
           | Some context \<Rightarrow>
               catch_std_exception
                 (invoke_try w interpreterPtr context)
                 (\<lambda>what w'. Returns (- 1)
                    (LOGE ''Exception during inference: %s'' [Str_arg what] w')))"

subsection \<open>\<open>getOutputTensor\<close>\<close>

definition getOutputTensor_try :: "world \<Rightarrow> TFLiteContext \<Rightarrow> jint \<Rightarrow> jarray \<Rightarrow> jint \<Rightarrow> jint result" where
  "getOutputTensor_try w context outputIndex output outputSize =
     (case interpreter context of
        None \<Rightarrow> Undefined_behaviour
      | Some interp \<Rightarrow>
         (case output_tensor interp (size_t_of_jint outputIndex) of
            Throw e \<Rightarrow> Propagates e w
          | Ret None \<Rightarrow> Returns (- 1) (LOGE ''Failed to get output tensor %d'' [Int_arg outputIndex] w)
          | Ret (Some t) \<Rightarrow>
             (case GetFloatArrayElements w output of
                None \<Rightarrow> Undefined_behaviour
              | Some (None, w1) \<Rightarrow> Returns (- 1) (LOGE ''Failed to get output array'' [] w1)
              | Some (Some outputData, w1) \<Rightarrow>
                 (case tensors interp t of
                    None \<Rightarrow> Undefined_behaviour
                  | Some out \<Rightarrow>
                     (case data_f out of
                        None \<Rightarrow> Undefined_behaviour
                      | Some src \<Rightarrow>
                         (case memcpy outputData src (byte_count outputSize) of
                            None \<Rightarrow> Undefined_behaviour
                          | Some outputData' \<Rightarrow>
                              Returns 0
                                (ReleaseFloatArrayElements w1 output outputData' Commit)))))))"

definition getOutputTensor :: "world \<Rightarrow> jlong \<Rightarrow> jint \<Rightarrow> jarray \<Rightarrow> jint \<Rightarrow> jint result" where
  "getOutputTensor w interpreterPtr outputIndex output outputSize =
     (if interpreterPtr = 0 then Returns (- 1) (LOGE ''Invalid interpreter pointer'' [] w)
      else case heap w interpreterPtr of
             None \<Rightarrow> Undefined_behaviour
           | Some context \<Rightarrow>
               catch_std_exception
                 (getOutputTensor_try w context outputIndex output outputSize)
                 (\<lambda>what w'. Returns (- 1)
                    (LOGE ''Exception getting output tensor: %s'' [Str_arg what] w')))"

subsection \<open>\<open>getInputTensorCount\<close>, \<open>getOutputTensorCount\<close>\<close>

text \<open>The \<open>size_t\<close> returned by \<open>size()\<close> is narrowed to \<open>jint\<close>.\<close>

definition jint_of_size :: "nat \<Rightarrow> jint" where
  "jint_of_size n = ucast (of_nat n :: size_t)"

definition getInputTensorCount :: "world \<Rightarrow> jlong \<Rightarrow> jint result" where
  "getInputTensorCount w interpreterPtr =
     (if interpreterPtr = 0 then Returns 0 w
      else case heap w interpreterPtr of
             None \<Rightarrow> Undefined_behaviour
           | Some context \<Rightarrow>
              (case interpreter context of
                 None \<Rightarrow> Undefined_behaviour
               | Some interp \<Rightarrow> Returns (jint_of_size (length (inputs interp))) w))"

definition getOutputTensorCount :: "world \<Rightarrow> jlong \<Rightarrow> jint result" where
  "getOutputTensorCount w interpreterPtr =
     (if interpreterPtr = 0 then Returns 0 w
      else case heap w interpreterPtr of
             None \<Rightarrow> Undefined_behaviour
           | Some context \<Rightarrow>
              (case interpreter context of
                 None \<Rightarrow> Undefined_behaviour
               | Some interp \<Rightarrow> Returns (jint_of_size (length (outputs interp))) w))"

subsection \<open>\<open>getInputTensorShape\<close>, \<open>getOutputTensorShape\<close>\<close>

text \<open>
  The copy loop \<open>for (int i = 0; i < dims->size && i < GetArrayLength(shape); i++)
  shapeData[i] = dims->data[i]\<close>. A write outside \<open>shapeData\<close> is undefined
  behaviour (\<open>None\<close>).
\<close>

function shape_loop :: "nat \<Rightarrow> jint list \<Rightarrow> nat \<Rightarrow> jint list \<Rightarrow> jint list option" where
  "shape_loop i ds len shapeData =
     (if i < length ds \<and> i < len
      then (if i < length shapeData
            then shape_loop (i + 1) ds len (shapeData[i := ds ! i])
            else None)
      else Some shapeData)"
  by pat_completeness auto
termination
  by (relation "measure (\<lambda>(i, ds, len, shapeData). length ds - i)") auto

declare shape_loop.simps [simp del]

definition copy_shape :: "world \<Rightarrow> Interpreter \<Rightarrow> nat \<Rightarrow> jarray \<Rightarrow> unit result" where
  "copy_shape w interp t shape =
     (case GetIntArrayElements w shape of
        None \<Rightarrow> Undefined_behaviour
      | Some (None, w1) \<Rightarrow> Returns () w1
      | Some (Some shapeData, w1) \<Rightarrow>
         (case tensors interp t of
            None \<Rightarrow> Undefined_behaviour
          | Some tensor \<Rightarrow>
             (case int_arrays w1 shape of
                None \<Rightarrow> Undefined_behaviour
              | Some arr \<Rightarrow>
                 (case shape_loop 0 (dims tensor) (length arr) shapeData of
                    None \<Rightarrow> Undefined_behaviour
                  | Some shapeData' \<Rightarrow>
                      Returns () (ReleaseIntArrayElements w1 shape shapeData' Commit)))))"

definition getInputTensorShape_try :: "world \<Rightarrow> TFLiteContext \<Rightarrow> jint \<Rightarrow> jarray \<Rightarrow> unit result" where
  "getInputTensorShape_try w context inputIndex shape =
     (case interpreter context of
        None \<Rightarrow> Undefined_behaviour
      | Some interp \<Rightarrow>
         (case input_tensor interp (size_t_of_jint inputIndex) of
            Throw e \<Rightarrow> Propagates e w
          | Ret None \<Rightarrow> Returns () w
          | Ret (Some t) \<Rightarrow> copy_shape w interp t shape))"

definition getInputTensorShape :: "world \<Rightarrow> jlong \<Rightarrow> jint \<Rightarrow> jarray \<Rightarrow> unit result" where
  "getInputTensorShape w interpreterPtr inputIndex shape =
     (if interpreterPtr = 0 then Returns () w
      else case heap w interpreterPtr of
             None \<Rightarrow> Undefined_behaviour
           | Some context \<Rightarrow>
               catch_std_exception
                 (getInputTensorShape_try w context inputIndex shape)
                 (\<lambda>what w'. Returns ()
                    (LOGE ''Exception getting input tensor shape: %s'' [Str_arg what] w')))"

definition getOutputTensorShape_try :: "world \<Rightarrow> TFLiteContext \<Rightarrow> jint \<Rightarrow> jarray \<Rightarrow> unit result" where
  "getOutputTensorShape_try w context outputIndex shape =
     (case interpreter context of
        None \<Rightarrow> Undefined_behaviour
      | Some interp \<Rightarrow>
         (case output_tensor interp (size_t_of_jint outputIndex) of
            Throw e \<Rightarrow> Propagates e w
          | Ret None \<Rightarrow> Returns () w
          | Ret (Some t) \<Rightarrow> copy_shape w interp t shape))"

definition getOutputTensorShape :: "world \<Rightarrow> jlong \<Rightarrow> jint \<Rightarrow> jarray \<Rightarrow> unit result" where
  "getOutputTensorShape w interpreterPtr outputIndex shape =
     (if interpreterPtr = 0 then Returns () w
      else case heap w interpreterPtr of
             None \<Rightarrow> Undefined_behaviour
           | Some context \<Rightarrow>
               catch_std_exception
                 (getOutputTensorShape_try w context outputIndex shape)
                 (\<lambda>what w'. Returns ()
                    (LOGE ''Exception getting output tensor shape: %s'' [Str_arg what] w')))"

subsection \<open>\<open>createInterpreter\<close>, \<open>destroyInterpreter\<close>\<close>

text \<open>
  \<open>delete context\<close>, also run by the destructor of the local \<open>std::unique_ptr\<close>
  when \<open>createInterpreter\<close> leaves its \<open>try\<close> block without \<open>release()\<close>. The
  model and the interpreter are owned by the context and go with it.
\<close>

definition delete_context :: "world \<Rightarrow> jlong \<Rightarrow> world" where
  "delete_context w p = w\<lparr>heap := (heap w)(p := None)\<rparr>"

definition set_context :: "world \<Rightarrow> jlong \<Rightarrow> TFLiteContext \<Rightarrow> world" where
  "set_context w p c = w\<lparr>heap := (heap w)(p \<mapsto> c)\<rparr>"

definition SetNumThreads :: "Interpreter \<Rightarrow> int \<Rightarrow> Interpreter" where
  "SetNumThreads interp n = interp\<lparr>num_threads := n\<rparr>"

definition createInterpreter_try :: "tflite \<Rightarrow> world \<Rightarrow> jarray \<Rightarrow> jbyte list \<Rightarrow> nat \<Rightarrow> jlong result" where
  "createInterpreter_try lib w modelData modelBytes modelSize =
     (case new_address lib of
        Throw e \<Rightarrow> Propagates e w
      | Ret p \<Rightarrow>
         (let w1 = set_context w p \<lparr>model = None, interpreter = None\<rparr>
          in case BuildFromBuffer lib modelBytes modelSize of
               Throw e \<Rightarrow> Propagates e (delete_context w1 p)
             | Ret None \<Rightarrow>
                 Returns 0
                   (delete_context
                      (ReleaseByteArrayElements
                         (LOGE ''Failed to create TensorFlow Lite model'' [] w1)
                         modelData modelBytes JNI_ABORT) p)
             | Ret (Some m) \<Rightarrow>
                (let w2 = set_context w1 p \<lparr>model = Some m, interpreter = None\<rparr>
                 in case InterpreterBuilder lib m of
                      Throw e \<Rightarrow> Propagates e (delete_context w2 p)
                    | Ret None \<Rightarrow>
                        Returns 0
                          (delete_context
                             (ReleaseByteArrayElements
                                (LOGE ''Failed to create TensorFlow Lite interpreter'' [] w2)
                                modelData modelBytes JNI_ABORT) p)
                    | Ret (Some interp) \<Rightarrow>
                       (case AllocateTensors lib interp of
                          Throw e \<Rightarrow>
                            Propagates e
                              (delete_context
                                 (set_context w2 p \<lparr>model = Some m, interpreter = Some interp\<rparr>) p)
                        | Ret (interp', status) \<Rightarrow>
                           (let w3 = set_context w2 p \<lparr>model = Some m, interpreter = Some interp'\<rparr>
                            in if status \<noteq> kTfLiteOk
                               then Returns 0
                                      (delete_context
                                         (ReleaseByteArrayElements
                                            (LOGE ''Failed to allocate tensors'' [] w3)
                                            modelData modelBytes JNI_ABORT) p)
                               else Returns p
                                      (ReleaseByteArrayElements
                                         (LOGD ''TensorFlow Lite interpreter created successfully'' []
                                            (set_context w3 p
                                               \<lparr>model = Some m,
                                                interpreter = Some (SetNumThreads interp' 4)\<rparr>))
                                         modelData modelBytes JNI_ABORT))))))"

definition createInterpreter :: "tflite \<Rightarrow> world \<Rightarrow> jarray \<Rightarrow> jlong result" where
  "createInterpreter lib w modelData =
     (case byte_arrays w modelData of
        None \<Rightarrow> Undefined_behaviour
      | Some bytes \<Rightarrow>
         (let modelSize = length bytes
          in case GetByteArrayElements w modelData of
               None \<Rightarrow> Undefined_behaviour
             | Some (None, w1) \<Rightarrow> Returns 0 (LOGE ''Failed to get model bytes'' [] w1)
             | Some (Some modelBytes, w1) \<Rightarrow>
                 catch_std_exception
                   (createInterpreter_try lib w1 modelData modelBytes modelSize)
                   (\<lambda>what w'. Returns 0
                      (ReleaseByteArrayElements
                         (LOGE ''Exception creating interpreter: %s'' [Str_arg what] w')
                         modelData modelBytes JNI_ABORT))))"

definition destroyInterpreter :: "world \<Rightarrow> jlong \<Rightarrow> unit result" where
  "destroyInterpreter w interpreterPtr =
     (if interpreterPtr \<noteq> 0
      then (case heap w interpreterPtr of
              None \<Rightarrow> Undefined_behaviour
            | Some context \<Rightarrow>
                Returns ()
                  (LOGD ''TensorFlow Lite interpreter destroyed'' []
                     (delete_context w interpreterPtr)))
      else Returns () w)"

section \<open>A concrete session\<close>

text \<open>
  One input of shape [1, 4], one output of shape [1, 2], held at address 4096. The toy
  engine writes the sums of the two halves of the input into the output (and clears
  the output and reports an error when the input does not hold four elements). Java holds a
  float array of four elements (reference 1), one of two (reference 2), an int array of
  one element (reference 3) and a byte array (reference 4).
\<close>

definition example_tensors :: tensor_table where
  "example_tensors =
     [0 \<mapsto> \<lparr>data_f = Some [0, 0, 0, 0], dims = [1, 4]\<rparr>,
      1 \<mapsto> \<lparr>data_f = Some [0, 0], dims = [1, 2]\<rparr>]"

definition example_output :: "jfloat list option option \<Rightarrow> TfLiteTensor \<times> TfLiteStatus" where
  "example_output d =
     (case d of
        Some (Some [a, b, c, d]) \<Rightarrow> (\<lparr>data_f = Some [a + b, c + d], dims = [1, 2]\<rparr>, kTfLiteOk)
      | _ \<Rightarrow> (\<lparr>data_f = Some [0, 0], dims = [1, 2]\<rparr>, kTfLiteError))"

definition example_Invoke :: "tensor_table \<Rightarrow> tensor_table \<times> TfLiteStatus call" where
  "example_Invoke ts =
     (case example_output (map_option data_f (ts 0)) of
        (out, status) \<Rightarrow> (ts(1 \<mapsto> out), Ret status))"

definition example_lookup :: "nat \<Rightarrow> size_t \<Rightarrow> nat option call" where
  "example_lookup t i = (if i = 0 then Ret (Some t) else Ret None)"

definition example_interpreter :: Interpreter where
  "example_interpreter =
     \<lparr>tensors = example_tensors, inputs = [0], outputs = [1],
      input_tensor = example_lookup 0, output_tensor = example_lookup 1,
      Invoke = example_Invoke, num_threads = 4\<rparr>"

definition example_context :: TFLiteContext where
  "example_context = \<lparr>model = Some [], interpreter = Some example_interpreter\<rparr>"

definition example_world :: world where
  "example_world =
     \<lparr>heap = [4096 \<mapsto> example_context],
      float_arrays = [1 \<mapsto> [10, 20, 30, 40], 2 \<mapsto> [7, 7]],
      int_arrays = [3 \<mapsto> [9]],
      byte_arrays = [4 \<mapsto> [1, 2, 3]],
      elements_refused = {},
      outstanding = [],
      logcat = []\<rparr>"

text \<open>
  The same session later: the tensors and the output array hold what earlier rounds
  left there, and the log is not empty.
\<close>

definition stale_world :: world where
  "stale_world =
     example_world
       \<lparr>heap := [4096 \<mapsto> example_context\<lparr>interpreter := Some (example_interpreter\<lparr>tensors :=
            [0 \<mapsto> \<lparr>data_f = Some [5, 6, 7, 8], dims = [1, 4]\<rparr>,
             1 \<mapsto> \<lparr>data_f = Some [11, 15], dims = [1, 2]\<rparr>]\<rparr>)\<rparr>],
        float_arrays := [1 \<mapsto> [10, 20, 30, 40], 2 \<mapsto> [11, 15]],
        logcat := [\<lparr>prio = ANDROID_LOG_DEBUG, tag = LOG_TAG,
                   fmt = ''TensorFlow Lite interpreter created successfully'', args = []\<rparr>]\<rparr>"

text \<open>
  The same session when the input tensor holds one element only: the toy engine then
  reports \<open>kTfLiteError\<close>.
\<close>

definition malformed_world :: world where
  "malformed_world =
     example_world
       \<lparr>heap := [4096 \<mapsto> example_context\<lparr>interpreter := Some (example_interpreter\<lparr>tensors :=
            [0 \<mapsto> \<lparr>data_f = Some [1], dims = [1]\<rparr>,
             1 \<mapsto> \<lparr>data_f = Some [0, 0], dims = [1, 2]\<rparr>]\<rparr>)\<rparr>]\<rparr>"

text \<open>The same world when JNI cannot hand out the elements of the float array 1.\<close>

definition refusing_world :: world where
  "refusing_world = example_world\<lparr>elements_refused := {1}\<rparr>"

text \<open>
  An engine whose slot lookup does not look at the index: the bridge passes the index
  on as it is, and nothing in the bridge relates it to \<open>inputs().size()\<close>.
\<close>

definition lenient_interpreter :: Interpreter where
  "lenient_interpreter =
     example_interpreter\<lparr>input_tensor := (\<lambda>i. Ret (Some 0)),
                         output_tensor := (\<lambda>i. Ret (Some 1))\<rparr>"

definition lenient_world :: world where
  "lenient_world =
     example_world\<lparr>heap := [4096 \<mapsto> \<lparr>model = Some [], interpreter = Some lenient_interpreter\<rparr>]\<rparr>"

text \<open>An engine whose \<open>Invoke\<close> throws an object that is not a \<open>std::exception\<close>.\<close>

definition foreign_interpreter :: Interpreter where
  "foreign_interpreter = example_interpreter\<lparr>Invoke := (\<lambda>ts. (ts, Throw Foreign_throw))\<rparr>"

definition foreign_world :: world where
  "foreign_world =
     example_world\<lparr>heap := [4096 \<mapsto> \<lparr>model = Some [], interpreter = Some foreign_interpreter\<rparr>]\<rparr>"

text \<open>An engine whose \<open>Invoke\<close> throws a \<open>std::exception\<close>.\<close>

definition throwing_interpreter :: Interpreter where
  "throwing_interpreter =
     example_interpreter\<lparr>Invoke := (\<lambda>ts. (ts, Throw (Std_exception ''bad kernel'')))\<rparr>"

definition throwing_world :: world where
  "throwing_world =
     example_world\<lparr>heap := [4096 \<mapsto> \<lparr>model = Some [], interpreter = Some throwing_interpreter\<rparr>]\<rparr>"

text \<open>
  A library for \<open>createInterpreter\<close> that allocates at 8192 and gives the stated
  results for parsing, building and allocating.
\<close>

definition example_lib :: "FlatBufferModel option \<Rightarrow> Interpreter option \<Rightarrow> TfLiteStatus \<Rightarrow> tflite" where
  "example_lib m interp status =
     \<lparr>new_address = Ret 8192,
      BuildFromBuffer = (\<lambda>bytes size. Ret m),
      InterpreterBuilder = (\<lambda>fb. Ret interp),
      AllocateTensors = (\<lambda>i. Ret (i, status))\<rparr>"

text \<open>
  A library whose allocation succeeds at 8192 and whose parsing, building or tensor
  allocation throws the given object (the stage is 0, 1 or 2; the stages before it
  succeed).
\<close>

definition throwing_lib :: "nat \<Rightarrow> exn \<Rightarrow> tflite" where
  "throwing_lib stage e =
     \<lparr>new_address = Ret 8192,
      BuildFromBuffer = (\<lambda>bytes size. if stage = 0 then Throw e else Ret (Some bytes)),
      InterpreterBuilder = (\<lambda>fb. if stage = 1 then Throw e else Ret (Some example_interpreter)),
      AllocateTensors = (\<lambda>i. Throw e)\<rparr>"

section \<open>One round of inference, as a caller runs it\<close>

text \<open>
  \<open>setInputTensor\<close>, then \<open>invoke\<close>, then \<open>getOutputTensor\<close>; the three
  statuses and the world left behind, or \<open>None\<close> when one of the calls does not
  return.
\<close>

definition inference_round ::
  "world \<Rightarrow> jlong \<Rightarrow> jint \<Rightarrow> jarray \<Rightarrow> jint \<Rightarrow> jint \<Rightarrow> jarray \<Rightarrow> jint
     \<Rightarrow> ((jint \<times> jint \<times> jint) \<times> world) option" where
  "inference_round w p i data n j out m =
     (case setInputTensor w p i data n of
        Returns s1 w1 \<Rightarrow>
          (case invoke w1 p of
             Returns s2 w2 \<Rightarrow>
               (case getOutputTensor w2 p j out m of
                  Returns s3 w3 \<Rightarrow> Some ((s1, s2, s3), w3)
                | _ \<Rightarrow> None)
           | _ \<Rightarrow> None)
      | _ \<Rightarrow> None)"

text \<open>
  The assumption on the wrapped engine: what \<open>Invoke\<close> reports and what it leaves
  in the output tensors depends only on the contents of the input tensors.
\<close>

definition engine_deterministic :: "Interpreter \<Rightarrow> bool" where
  "engine_deterministic interp \<longleftrightarrow>
     (\<forall>ts ts'.
        (\<forall>k \<in> set (inputs interp). map_option data_f (ts k) = map_option data_f (ts' k)) \<longrightarrow>
        snd (Invoke interp ts) = snd (Invoke interp ts') \<and>
        (\<forall>k \<in> set (outputs interp).
           map_option data_f (fst (Invoke interp ts) k) =
           map_option data_f (fst (Invoke interp ts') k)))"

text \<open>What the caller sees of a round: the statuses and the output array.\<close>

definition observed_output ::
  "jarray \<Rightarrow> ((jint \<times> jint \<times> jint) \<times> world) option
     \<Rightarrow> ((jint \<times> jint \<times> jint) \<times> jfloat list option) option" where
  "observed_output out r = map_option (\<lambda>(st, v). (st, float_arrays v out)) r"

section \<open>The sentinel handle\<close>

text \<open>
  C1. Given the handle 0, each of \<open>setInputTensor\<close>, \<open>invoke\<close> and
  \<open>getOutputTensor\<close> returns the negative status -1 at once: it returns (no
  undefined behaviour, no escaping exception), and the world it leaves differs from
  the one it found only by one error line appended to the log; heap and Java arrays
  are as before.
\<close>

theorem sentinel_handle_fails_at_once:
  "setInputTensor w 0 i a n = Returns (- 1) (LOGE ''Invalid interpreter pointer'' [] w)
   \<and> invoke w 0 = Returns (- 1) (LOGE ''Invalid interpreter pointer'' [] w)
   \<and> getOutputTensor w 0 i a n = Returns (- 1) (LOGE ''Invalid interpreter pointer'' [] w)
   \<and> sint (- 1 :: jint) < 0
   \<and> heap (LOGE ''Invalid interpreter pointer'' [] w) = heap w
   \<and> float_arrays (LOGE ''Invalid interpreter pointer'' [] w) = float_arrays w
   \<and> outstanding (LOGE ''Invalid interpreter pointer'' [] w) = outstanding w"
  by (simp add: setInputTensor_def invoke_def getOutputTensor_def LOGE_def)

section \<open>Introspection\<close>

lemma jint_of_size_of_nat: "jint_of_size n = of_nat n"
  by (simp add: jint_of_size_def unsigned_of_nat word_of_nat_eq_iff)

lemma jint_of_size_sint: "n < 2 ^ 31 \<Longrightarrow> sint (jint_of_size n) = int n"
  by (simp add: jint_of_size_of_nat signed_of_nat signed_take_bit_int_eq_self)

text \<open>
  C6. \<open>getInputTensorCount\<close> and \<open>getOutputTensorCount\<close> return 0, which is not
  negative, for the handle 0 and leave the world as it is. For a live session they
  return the number of input (output) slots the interpreter declares; the count is
  narrowed to \<open>jint\<close>, which keeps its value below \<open>2 ^ 31\<close>.
\<close>

theorem tensor_counts:
  assumes "p \<noteq> 0" and "heap w p = Some c" and "interpreter c = Some interp"
    and "length (inputs interp) < 2 ^ 31" and "length (outputs interp) < 2 ^ 31"
  shows "getInputTensorCount w0 0 = Returns 0 w0
     \<and> getOutputTensorCount w0 0 = Returns 0 w0
     \<and> \<not> sint (0 :: jint) < 0
     \<and> (\<exists>n. getInputTensorCount w p = Returns n w \<and> sint n = int (length (inputs interp)))
     \<and> (\<exists>n. getOutputTensorCount w p = Returns n w \<and> sint n = int (length (outputs interp)))"
  using assms
  by (simp add: getInputTensorCount_def getOutputTensorCount_def jint_of_size_sint)

theorem tensor_counts_witness:
  "getInputTensorCount example_world 0 = Returns 0 example_world
   \<and> getOutputTensorCount example_world 0 = Returns 0 example_world
   \<and> (\<exists>n. getInputTensorCount example_world 4096 = Returns n example_world \<and> sint n = 1)
   \<and> (\<exists>n. getOutputTensorCount example_world 4096 = Returns n example_world \<and> sint n = 1)"
proof -
  have h1: "(4096 :: jlong) \<noteq> 0" by simp
  have h2: "heap example_world 4096 = Some example_context"
    by (simp add: example_world_def)
  have h3: "interpreter example_context = Some example_interpreter"
    by (simp add: example_context_def)
  have h4: "length (inputs example_interpreter) < 2 ^ 31"
    and h5: "length (outputs example_interpreter) < 2 ^ 31"
    by (simp_all add: example_interpreter_def)
  have "length (inputs example_interpreter) = 1" "length (outputs example_interpreter) = 1"
    by (simp_all add: example_interpreter_def)
  then show ?thesis
    using tensor_counts [OF h1 h2 h3 h4 h5, of example_world] by simp
qed

lemma shape_loop_nth:
  "len = length buf \<Longrightarrow>
   \<exists>r. shape_loop i ds len buf = Some r \<and> length r = length buf \<and>
       (\<forall>j < length buf. r ! j = (if i \<le> j \<and> j < length ds then ds ! j else buf ! j))"
proof (induction i ds len buf rule: shape_loop.induct)
  case (1 i ds len shapeData)
  show ?case
  proof (cases "i < length ds \<and> i < len")
    case True
    have inb: "i < length shapeData" using True 1(2) by simp
    have "\<exists>r. shape_loop (i + 1) ds len (shapeData[i := ds ! i]) = Some r \<and>
       length r = length (shapeData[i := ds ! i]) \<and>
       (\<forall>j<length (shapeData[i := ds ! i]).
           r ! j = (if i + 1 \<le> j \<and> j < length ds then ds ! j else shapeData[i := ds ! i] ! j))"
      using True inb 1(2) by (intro 1(1)) simp_all
    then obtain r where r: "shape_loop (i + 1) ds len (shapeData[i := ds ! i]) = Some r"
      "length r = length shapeData"
      "\<forall>j < length shapeData. r ! j =
         (if i + 1 \<le> j \<and> j < length ds then ds ! j else (shapeData[i := ds ! i]) ! j)"
      by auto
    have "shape_loop i ds len shapeData = Some r"
      using True inb r(1) by (subst shape_loop.simps) simp
    moreover have "\<forall>j < length shapeData. r ! j =
        (if i \<le> j \<and> j < length ds then ds ! j else shapeData ! j)"
    proof (intro allI impI)
      fix j assume j: "j < length shapeData"
      have rj: "r ! j =
          (if i + 1 \<le> j \<and> j < length ds then ds ! j else (shapeData[i := ds ! i]) ! j)"
        using r(3) j by blast
      show "r ! j = (if i \<le> j \<and> j < length ds then ds ! j else shapeData ! j)"
      proof (cases "j = i")
        case True
        then show ?thesis using rj inb \<open>i < length ds \<and> i < len\<close> by simp
      next
        case False
        then have "(i + 1 \<le> j) = (i \<le> j)" by arith
        then show ?thesis using rj False by simp
      qed
    qed
    ultimately show ?thesis using r(2) by blast
  next
    case False
    then show ?thesis using 1(2) by (subst shape_loop.simps) auto
  qed
qed

lemma shape_loop_take_drop:
  "shape_loop 0 ds (length buf) buf =
     Some (take (min (length ds) (length buf)) ds @ drop (min (length ds) (length buf)) buf)"
proof -
  obtain r where r: "shape_loop 0 ds (length buf) buf = Some r" "length r = length buf"
    "\<forall>j < length buf. r ! j = (if j < length ds then ds ! j else buf ! j)"
    using shape_loop_nth [of "length buf" buf 0 ds] by auto
  have "r = take (min (length ds) (length buf)) ds @ drop (min (length ds) (length buf)) buf"
    using r(2,3) by (intro nth_equalityI) (auto simp: nth_append min_def)
  with r(1) show ?thesis by simp
qed

lemma copy_shape_result:
  assumes "tensors interp t = Some tensor"
    and "int_arrays w shape = Some arr" and "shape \<notin> elements_refused w"
  shows "copy_shape w interp t shape =
      Returns () (w\<lparr>int_arrays := (int_arrays w)(shape \<mapsto>
                 take (min (length (dims tensor)) (length arr)) (dims tensor)
                 @ drop (min (length (dims tensor)) (length arr)) arr)\<rparr>)"
  using assms
  by (simp add: copy_shape_def GetIntArrayElements_def get_elements_def
      shape_loop_take_drop ReleaseIntArrayElements_def)

text \<open>
  C5. For a live session, a slot whose lookup gives a tensor, and a destination int
  array whose elements JNI hands out: \<open>getInputTensorShape\<close> and
  \<open>getOutputTensorShape\<close> return, and the only change to the world is that the
  first \<open>min (rank, capacity)\<close> entries of the destination are the tensor's first
  extents, in order. The entries after them keep their values, the array keeps its
  length, and no write falls outside the buffer (that would be undefined behaviour,
  not a return). A destination shorter than the rank is filled and nothing is
  reported.
\<close>

theorem shape_copy_truncates:
  assumes "p \<noteq> 0" and "heap w p = Some c" and "interpreter c = Some interp"
    and "tensors interp t = Some tensor"
    and "int_arrays w shape = Some arr" and "shape \<notin> elements_refused w"
  shows "(input_tensor interp (size_t_of_jint i) = Ret (Some t) \<longrightarrow>
            getInputTensorShape w p i shape =
              Returns () (w\<lparr>int_arrays := (int_arrays w)(shape \<mapsto>
                 take (min (length (dims tensor)) (length arr)) (dims tensor)
                 @ drop (min (length (dims tensor)) (length arr)) arr)\<rparr>))
       \<and> (output_tensor interp (size_t_of_jint i) = Ret (Some t) \<longrightarrow>
            getOutputTensorShape w p i shape =
              Returns () (w\<lparr>int_arrays := (int_arrays w)(shape \<mapsto>
                 take (min (length (dims tensor)) (length arr)) (dims tensor)
                 @ drop (min (length (dims tensor)) (length arr)) arr)\<rparr>))
       \<and> length (take (min (length (dims tensor)) (length arr)) (dims tensor)
                 @ drop (min (length (dims tensor)) (length arr)) arr) = length arr"
  using assms(1-3) copy_shape_result [OF assms(4-6)]
  by (simp add: getInputTensorShape_def getOutputTensorShape_def catch_std_exception_def
      getInputTensorShape_try_def getOutputTensorShape_try_def)

text \<open>The output of rank 2 read into an int array of one element: only [1] is written.\<close>

theorem shape_copy_truncates_witness:
  "getOutputTensorShape example_world 4096 0 3 =
     Returns () (example_world\<lparr>int_arrays := [3 \<mapsto> [1]]\<rparr>)
   \<and> getInputTensorShape example_world 4096 0 3 =
     Returns () (example_world\<lparr>int_arrays := [3 \<mapsto> [1]]\<rparr>)"
proof -
  have h1: "(4096 :: jlong) \<noteq> 0" by simp
  have h2: "heap example_world 4096 = Some example_context"
    by (simp add: example_world_def)
  have h3: "interpreter example_context = Some example_interpreter"
    by (simp add: example_context_def)
  have h4: "tensors example_interpreter 1 = Some \<lparr>data_f = Some [0, 0], dims = [1, 2]\<rparr>"
    and h4': "tensors example_interpreter 0 = Some \<lparr>data_f = Some [0, 0, 0, 0], dims = [1, 4]\<rparr>"
    by (simp_all add: example_interpreter_def example_tensors_def)
  have h5: "int_arrays example_world 3 = Some [9]"
    and h6: "3 \<notin> elements_refused example_world"
    by (simp_all add: example_world_def)
  have o: "output_tensor example_interpreter (size_t_of_jint 0) = Ret (Some 1)"
    and i: "input_tensor example_interpreter (size_t_of_jint 0) = Ret (Some 0)"
    by (simp_all add: example_interpreter_def example_lookup_def size_t_of_jint_def)
  have ia: "int_arrays example_world = [3 \<mapsto> [9]]"
    by (simp add: example_world_def)
  show ?thesis
    using shape_copy_truncates [OF h1 h2 h3 h4 h5 h6, of 0]
      shape_copy_truncates [OF h1 h2 h3 h4' h5 h6, of 0] o i ia
    by simp
qed

section \<open>Copying across the boundary\<close>

lemma byte_count_nonneg:
  assumes "0 \<le> sint n"
  shows "byte_count n = 4 * nat (sint n)"
proof -
  have lt: "sint n < 2 ^ 31"
    using sint_lt [of n] by simp
  have "size_t_of_jint n * sizeof_float = word_of_int (sint n) * word_of_int 4"
    unfolding size_t_of_jint_def sizeof_float_def by simp
  also have "\<dots> = word_of_int (sint n * 4)"
    by (simp only: of_int_mult)
  finally have "uint (size_t_of_jint n * sizeof_float) = (sint n * 4) mod 2 ^ 64"
    by (simp only: uint_word_of_int) simp
  also have "\<dots> = sint n * 4"
    using assms lt by simp
  finally have u: "uint (size_t_of_jint n * sizeof_float) = sint n * 4" .
  have "unat (size_t_of_jint n * sizeof_float) = nat (uint (size_t_of_jint n * sizeof_float))"
    by (rule unat_eq_nat_uint)
  also have "\<dots> = 4 * nat (sint n)"
    unfolding u using assms by (simp add: nat_mult_distrib)
  finally show ?thesis
    by (simp only: byte_count_def)
qed

lemma memcpy_elements:
  "k \<le> length dst \<Longrightarrow> k \<le> length src \<Longrightarrow> memcpy dst src (4 * k) = Some (take k src @ drop k dst)"
  by (simp add: memcpy_def)

lemma setInputTensor_success:
  assumes "p \<noteq> 0" and "heap w p = Some c" and "interpreter c = Some interp"
    and "input_tensor interp (size_t_of_jint i) = Ret (Some t)"
    and "tensors interp t = Some tin" and "data_f tin = Some dst"
    and "float_arrays w data = Some src" and "data \<notin> elements_refused w"
    and "0 \<le> sint n" and "nat (sint n) \<le> length src" and "nat (sint n) \<le> length dst"
  shows "setInputTensor w p i data n =
     Returns 0 (store_tensor w p c interp t
        (tin\<lparr>data_f := Some (take (nat (sint n)) src @ drop (nat (sint n)) dst)\<rparr>))"
  using assms
  by (simp add: setInputTensor_def setInputTensor_try_def catch_std_exception_def
      GetFloatArrayElements_def get_elements_def byte_count_nonneg memcpy_elements
      ReleaseFloatArrayElements_def store_tensor_def)

lemma setInputTensor_returns:
  assumes "setInputTensor w p i data n = Returns s w'"
  shows "(s = - 1 \<and> heap w' = heap w \<and> (\<exists>l. logcat w' = logcat w @ [l] \<and> prio l = ANDROID_LOG_ERROR)
          \<or> s = 0 \<and> logcat w' = logcat w)
       \<and> float_arrays w' = float_arrays w \<and> outstanding w' = outstanding w
       \<and> int_arrays w' = int_arrays w"
  using assms
  by (auto simp: setInputTensor_def setInputTensor_try_def catch_std_exception_def
      GetFloatArrayElements_def get_elements_def LOGE_def
      ReleaseFloatArrayElements_def store_tensor_def
      split: if_splits option.splits call.splits result.splits exn.splits prod.splits)

lemma setInputTensor_propagates:
  assumes "setInputTensor w p i data n = Propagates e w'"
  shows "w' = w \<and> e = Foreign_throw"
  using assms
  by (auto simp: setInputTensor_def setInputTensor_try_def catch_std_exception_def
      GetFloatArrayElements_def get_elements_def LOGE_def
      ReleaseFloatArrayElements_def store_tensor_def
      split: if_splits option.splits call.splits result.splits exn.splits prod.splits)

lemma getOutputTensor_success:
  assumes "p \<noteq> 0" and "heap w p = Some c" and "interpreter c = Some interp"
    and "output_tensor interp (size_t_of_jint j) = Ret (Some t)"
    and "tensors interp t = Some tout" and "data_f tout = Some src"
    and "float_arrays w out = Some dst" and "out \<notin> elements_refused w"
    and "0 \<le> sint m" and "nat (sint m) \<le> length src" and "nat (sint m) \<le> length dst"
  shows "getOutputTensor w p j out m =
     Returns 0 (w\<lparr>float_arrays := (float_arrays w)(out \<mapsto>
        take (nat (sint m)) src @ drop (nat (sint m)) dst)\<rparr>)"
  using assms
  by (simp add: getOutputTensor_def getOutputTensor_try_def catch_std_exception_def
      GetFloatArrayElements_def get_elements_def byte_count_nonneg memcpy_elements
      ReleaseFloatArrayElements_def)

lemma getOutputTensor_returns:
  assumes "getOutputTensor w p j out m = Returns s w'"
  shows "(s = - 1 \<and> float_arrays w' = float_arrays w
            \<and> (\<exists>l. logcat w' = logcat w @ [l] \<and> prio l = ANDROID_LOG_ERROR)
          \<or> s = 0 \<and> logcat w' = logcat w)
       \<and> heap w' = heap w \<and> outstanding w' = outstanding w"
  using assms
  by (auto simp: getOutputTensor_def getOutputTensor_try_def catch_std_exception_def
      GetFloatArrayElements_def get_elements_def LOGE_def
      ReleaseFloatArrayElements_def
      split: if_splits option.splits call.splits result.splits exn.splits prod.splits)

lemma invoke_returns:
  assumes "invoke w p = Returns s w'"
  shows "(s = - 1 \<and> (\<exists>l. logcat w' = logcat w @ [l] \<and> prio l = ANDROID_LOG_ERROR)
          \<or> s = 0 \<and> logcat w' = logcat w)
       \<and> float_arrays w' = float_arrays w \<and> outstanding w' = outstanding w"
  using assms
  by (auto simp: invoke_def invoke_try_def catch_std_exception_def LOGE_def Let_def
      split: if_splits option.splits call.splits result.splits exn.splits prod.splits)

lemma example_live:
  "heap example_world 4096 = Some example_context"
  "interpreter example_context = Some example_interpreter"
  by (simp_all add: example_world_def example_context_def)

lemma example_slots:
  "input_tensor example_interpreter (size_t_of_jint 0) = Ret (Some 0)"
  "input_tensor example_interpreter (size_t_of_jint 1) = Ret None"
  "output_tensor example_interpreter (size_t_of_jint 0) = Ret (Some 1)"
  "output_tensor example_interpreter (size_t_of_jint 1) = Ret None"
  "tensors example_interpreter 0 = Some \<lparr>data_f = Some [0, 0, 0, 0], dims = [1, 4]\<rparr>"
  "tensors example_interpreter 1 = Some \<lparr>data_f = Some [0, 0], dims = [1, 2]\<rparr>"
  by (simp_all add: example_interpreter_def example_lookup_def size_t_of_jint_def
      example_tensors_def)

lemma example_arrays:
  "float_arrays example_world 1 = Some [10, 20, 30, 40]"
  "float_arrays example_world 2 = Some [7, 7]"
  "1 \<notin> elements_refused example_world"
  "2 \<notin> elements_refused example_world"
  by (simp_all add: example_world_def)

text \<open>
  C7. For a live session: when the lookup gives a tensor with a buffer, JNI hands out
  the source array and \<open>length\<close> is not negative and within both buffers (the
  caller's obligation), \<open>setInputTensor\<close> returns 0. Afterwards the context at
  the handle holds, behind the slot, a tensor whose buffer starts with the first
  \<open>length\<close> elements of the source, bit for bit, and continues with its own
  earlier elements; its length and shape are as before, and so are all other tensors,
  all other contexts, the model, the Java arrays, the outstanding buffers and the log.
  When the handle is 0, the lookup gives no tensor or JNI does not hand out the
  source, it returns -1; and whenever it returns -1 the native heap, and so every
  tensor buffer, is as before.
\<close>

theorem setInputTensor_copies_exactly:
  assumes "p \<noteq> 0" and "heap w p = Some c" and "interpreter c = Some interp"
  shows
   "(input_tensor interp (size_t_of_jint i) = Ret (Some t) \<and> tensors interp t = Some tin
       \<and> data_f tin = Some dst \<and> float_arrays w data = Some src \<and> data \<notin> elements_refused w
       \<and> 0 \<le> sint n \<and> nat (sint n) \<le> length src \<and> nat (sint n) \<le> length dst
       \<longrightarrow> setInputTensor w p i data n =
             Returns 0
               (w\<lparr>heap := (heap w)(p \<mapsto> c\<lparr>interpreter := Some (interp\<lparr>tensors :=
                  (tensors interp)(t \<mapsto>
                     tin\<lparr>data_f := Some (take (nat (sint n)) src @ drop (nat (sint n)) dst)\<rparr>)\<rparr>)\<rparr>)\<rparr>)
           \<and> (\<exists>w' c' interp' tin'.
                 setInputTensor w p i data n = Returns 0 w'
                 \<and> heap w' p = Some c' \<and> interpreter c' = Some interp'
                 \<and> tensors interp' t = Some tin'
                 \<and> data_f tin' = Some (take (nat (sint n)) src @ drop (nat (sint n)) dst)
                 \<and> take (nat (sint n)) (the (data_f tin')) = take (nat (sint n)) src
                 \<and> drop (nat (sint n)) (the (data_f tin')) = drop (nat (sint n)) dst
                 \<and> length (the (data_f tin')) = length dst
                 \<and> dims tin' = dims tin
                 \<and> (\<forall>k. k \<noteq> t \<longrightarrow> tensors interp' k = tensors interp k)
                 \<and> (\<forall>q. q \<noteq> p \<longrightarrow> heap w' q = heap w q)
                 \<and> model c' = model c
                 \<and> float_arrays w' = float_arrays w \<and> int_arrays w' = int_arrays w
                 \<and> byte_arrays w' = byte_arrays w \<and> outstanding w' = outstanding w
                 \<and> logcat w' = logcat w))
    \<and> (input_tensor interp (size_t_of_jint i) = Ret None
       \<longrightarrow> setInputTensor w p i data n =
             Returns (- 1) (LOGE ''Failed to get input tensor %d'' [Int_arg i] w))
    \<and> (input_tensor interp (size_t_of_jint i) = Ret (Some t)
         \<and> float_arrays w data = Some src \<and> data \<in> elements_refused w
       \<longrightarrow> setInputTensor w p i data n = Returns (- 1) (LOGE ''Failed to get input data'' [] w))
    \<and> setInputTensor w 0 i data n = Returns (- 1) (LOGE ''Invalid interpreter pointer'' [] w)
    \<and> (\<forall>w'. setInputTensor w p i data n = Returns (- 1) w' \<longrightarrow> heap w' = heap w)"
proof (intro conjI impI allI)
  assume h: "input_tensor interp (size_t_of_jint i) = Ret (Some t) \<and> tensors interp t = Some tin
       \<and> data_f tin = Some dst \<and> float_arrays w data = Some src \<and> data \<notin> elements_refused w
       \<and> 0 \<le> sint n \<and> nat (sint n) \<le> length src \<and> nat (sint n) \<le> length dst"
  let ?buf = "take (nat (sint n)) src @ drop (nat (sint n)) dst"
  let ?w' = "w\<lparr>heap := (heap w)(p \<mapsto> c\<lparr>interpreter := Some (interp\<lparr>tensors :=
                  (tensors interp)(t \<mapsto> tin\<lparr>data_f := Some ?buf\<rparr>)\<rparr>)\<rparr>)\<rparr>"
  show eq: "setInputTensor w p i data n = Returns 0 ?w'"
    using setInputTensor_success [of p w c interp i t tin dst data src n] assms h
    by (simp add: store_tensor_def)
  have len: "length ?buf = length dst" "take (nat (sint n)) ?buf = take (nat (sint n)) src"
    "drop (nat (sint n)) ?buf = drop (nat (sint n)) dst"
    using h by simp_all
  show "\<exists>w' c' interp' tin'.
                 setInputTensor w p i data n = Returns 0 w'
                 \<and> heap w' p = Some c' \<and> interpreter c' = Some interp'
                 \<and> tensors interp' t = Some tin'
                 \<and> data_f tin' = Some (take (nat (sint n)) src @ drop (nat (sint n)) dst)
                 \<and> take (nat (sint n)) (the (data_f tin')) = take (nat (sint n)) src
                 \<and> drop (nat (sint n)) (the (data_f tin')) = drop (nat (sint n)) dst
                 \<and> length (the (data_f tin')) = length dst
                 \<and> dims tin' = dims tin
                 \<and> (\<forall>k. k \<noteq> t \<longrightarrow> tensors interp' k = tensors interp k)
                 \<and> (\<forall>q. q \<noteq> p \<longrightarrow> heap w' q = heap w q)
                 \<and> model c' = model c
                 \<and> float_arrays w' = float_arrays w \<and> int_arrays w' = int_arrays w
                 \<and> byte_arrays w' = byte_arrays w \<and> outstanding w' = outstanding w
                 \<and> logcat w' = logcat w"
    apply (rule exI [of _ ?w'])
    apply (rule exI [of _ "c\<lparr>interpreter := Some (interp\<lparr>tensors :=
                  (tensors interp)(t \<mapsto> tin\<lparr>data_f := Some ?buf\<rparr>)\<rparr>)\<rparr>"])
    apply (rule exI [of _ "interp\<lparr>tensors := (tensors interp)(t \<mapsto> tin\<lparr>data_f := Some ?buf\<rparr>)\<rparr>"])
    apply (rule exI [of _ "tin\<lparr>data_f := Some ?buf\<rparr>"])
    using eq len by simp
next
  assume "input_tensor interp (size_t_of_jint i) = Ret None"
  then show "setInputTensor w p i data n =
             Returns (- 1) (LOGE ''Failed to get input tensor %d'' [Int_arg i] w)"
    using assms
    by (simp add: setInputTensor_def setInputTensor_try_def catch_std_exception_def)
next
  assume "input_tensor interp (size_t_of_jint i) = Ret (Some t)
         \<and> float_arrays w data = Some src \<and> data \<in> elements_refused w"
  then show "setInputTensor w p i data n = Returns (- 1) (LOGE ''Failed to get input data'' [] w)"
    using assms
    by (simp add: setInputTensor_def setInputTensor_try_def catch_std_exception_def
        GetFloatArrayElements_def get_elements_def)
next
  show "setInputTensor w 0 i data n = Returns (- 1) (LOGE ''Invalid interpreter pointer'' [] w)"
    by (simp add: setInputTensor_def)
next
  fix w' assume "setInputTensor w p i data n = Returns (- 1) w'"
  from setInputTensor_returns [OF this] show "heap w' = heap w" by simp
qed

theorem setInputTensor_copies_exactly_witness:
  "(\<exists>w' c' interp' tin'.
      setInputTensor example_world 4096 0 1 4 = Returns 0 w'
      \<and> heap w' 4096 = Some c' \<and> interpreter c' = Some interp'
      \<and> tensors interp' 0 = Some tin' \<and> data_f tin' = Some [10, 20, 30, 40]
      \<and> dims tin' = [1, 4])
   \<and> (\<exists>w' c' interp' tin'.
      setInputTensor example_world 4096 0 1 2 = Returns 0 w'
      \<and> heap w' 4096 = Some c' \<and> interpreter c' = Some interp'
      \<and> tensors interp' 0 = Some tin' \<and> data_f tin' = Some [10, 20, 0, 0]
      \<and> dims tin' = [1, 4])
   \<and> setInputTensor example_world 4096 0 1 4 =
       Returns 0
         (example_world\<lparr>heap := [4096 \<mapsto> example_context\<lparr>interpreter :=
            Some (example_interpreter\<lparr>tensors :=
               (tensors example_interpreter)
                 (0 \<mapsto> \<lparr>data_f = Some [10, 20, 30, 40], dims = [1, 4]\<rparr>)\<rparr>)\<rparr>]\<rparr>)
   \<and> setInputTensor example_world 4096 1 1 4 =
     Returns (- 1) (LOGE ''Failed to get input tensor %d'' [Int_arg 1] example_world)
   \<and> setInputTensor refusing_world 4096 0 1 4 =
     Returns (- 1) (LOGE ''Failed to get input data'' [] refusing_world)"
proof -
  have h1: "(4096 :: jlong) \<noteq> 0" by simp
  note t = setInputTensor_copies_exactly [OF h1 example_live]
  have h4: "input_tensor example_interpreter (size_t_of_jint 0) = Ret (Some 0)
       \<and> tensors example_interpreter 0 = Some \<lparr>data_f = Some [0, 0, 0, 0], dims = [1, 4]\<rparr>
       \<and> data_f \<lparr>data_f = Some [0, 0, 0, 0], dims = [1, 4]\<rparr> = Some [0, 0, 0, 0]
       \<and> float_arrays example_world 1 = Some [10, 20, 30, 40]
       \<and> 1 \<notin> elements_refused example_world
       \<and> 0 \<le> sint (4 :: jint) \<and> nat (sint (4 :: jint)) \<le> length [10 :: jfloat, 20, 30, 40]
       \<and> nat (sint (4 :: jint)) \<le> length [0 :: jfloat, 0, 0, 0]"
    using example_slots example_arrays by simp
  have h2: "input_tensor example_interpreter (size_t_of_jint 0) = Ret (Some 0)
       \<and> tensors example_interpreter 0 = Some \<lparr>data_f = Some [0, 0, 0, 0], dims = [1, 4]\<rparr>
       \<and> data_f \<lparr>data_f = Some [0, 0, 0, 0], dims = [1, 4]\<rparr> = Some [0, 0, 0, 0]
       \<and> float_arrays example_world 1 = Some [10, 20, 30, 40]
       \<and> 1 \<notin> elements_refused example_world
       \<and> 0 \<le> sint (2 :: jint) \<and> nat (sint (2 :: jint)) \<le> length [10 :: jfloat, 20, 30, 40]
       \<and> nat (sint (2 :: jint)) \<le> length [0 :: jfloat, 0, 0, 0]"
    using example_slots example_arrays by simp
  have a: "\<exists>w' c' interp' tin'.
      setInputTensor example_world 4096 0 1 4 = Returns 0 w'
      \<and> heap w' 4096 = Some c' \<and> interpreter c' = Some interp'
      \<and> tensors interp' 0 = Some tin' \<and> data_f tin' = Some [10, 20, 30, 40]
      \<and> dims tin' = [1, 4]"
    using t [THEN conjunct1, THEN mp, OF h4, THEN conjunct2] by simp blast
  have b: "\<exists>w' c' interp' tin'.
      setInputTensor example_world 4096 0 1 2 = Returns 0 w'
      \<and> heap w' 4096 = Some c' \<and> interpreter c' = Some interp'
      \<and> tensors interp' 0 = Some tin' \<and> data_f tin' = Some [10, 20, 0, 0]
      \<and> dims tin' = [1, 4]"
    using t [THEN conjunct1, THEN mp, OF h2, THEN conjunct2] by simp blast
  have hp: "heap example_world = [4096 \<mapsto> example_context]"
    by (simp add: example_world_def)
  have a': "setInputTensor example_world 4096 0 1 4 =
       Returns 0
         (example_world\<lparr>heap := [4096 \<mapsto> example_context\<lparr>interpreter :=
            Some (example_interpreter\<lparr>tensors :=
               (tensors example_interpreter)
                 (0 \<mapsto> \<lparr>data_f = Some [10, 20, 30, 40], dims = [1, 4]\<rparr>)\<rparr>)\<rparr>]\<rparr>)"
    using t [THEN conjunct1, THEN mp, OF h4, THEN conjunct1] by (simp add: hp)
  have c: "setInputTensor example_world 4096 1 1 4 =
     Returns (- 1) (LOGE ''Failed to get input tensor %d'' [Int_arg 1] example_world)"
    using t [THEN conjunct2, THEN conjunct1, THEN mp, OF example_slots(2)] .
  have r: "heap refusing_world 4096 = Some example_context"
    "float_arrays refusing_world 1 = Some [10, 20, 30, 40]"
    "1 \<in> elements_refused refusing_world"
    by (simp_all add: refusing_world_def example_world_def)
  have hr: "input_tensor example_interpreter (size_t_of_jint 0) = Ret (Some 0)
         \<and> float_arrays refusing_world 1 = Some [10, 20, 30, 40]
         \<and> 1 \<in> elements_refused refusing_world"
    using example_slots r by simp
  have e: "setInputTensor refusing_world 4096 0 1 4 =
     Returns (- 1) (LOGE ''Failed to get input data'' [] refusing_world)"
    using setInputTensor_copies_exactly [OF h1 r(1) example_live(2),
        THEN conjunct2, THEN conjunct2, THEN conjunct1, THEN mp, OF hr] .
  show ?thesis using a b a' c e by (intro conjI)
qed

lemma example_invoke:
  "invoke example_world 4096 =
     Returns 0 (example_world\<lparr>heap := [4096 \<mapsto> example_context\<lparr>interpreter :=
        Some (example_interpreter\<lparr>tensors :=
           example_tensors(1 \<mapsto> \<lparr>data_f = Some [0, 0], dims = [1, 2]\<rparr>)\<rparr>)\<rparr>]\<rparr>)"
  by (simp add: invoke_def invoke_try_def catch_std_exception_def example_live
      example_interpreter_def example_Invoke_def example_output_def example_tensors_def
      example_world_def)

lemma example_setInputTensor:
  "setInputTensor example_world 4096 0 1 4 =
     Returns 0 (store_tensor example_world 4096 example_context example_interpreter 0
        \<lparr>data_f = Some [10, 20, 30, 40], dims = [1, 4]\<rparr>)"
  using setInputTensor_success [OF _ example_live example_slots(1) example_slots(5) _
     example_arrays(1) example_arrays(3), of "[0, 0, 0, 0]" 4]
  by simp

lemma example_setInputTensor_missing:
  "setInputTensor example_world 4096 1 1 4 =
     Returns (- 1) (LOGE ''Failed to get input tensor %d'' [Int_arg 1] example_world)"
  by (simp add: setInputTensor_def setInputTensor_try_def catch_std_exception_def
      example_live example_slots)

lemma example_getOutputTensor:
  "getOutputTensor example_world 4096 0 2 2 =
     Returns 0 (example_world\<lparr>float_arrays := (float_arrays example_world)(2 \<mapsto> [0, 0])\<rparr>)"
  using getOutputTensor_success [OF _ example_live example_slots(3) example_slots(6) _
     example_arrays(2) example_arrays(4), of "[0, 0]" 2]
  by simp

section \<open>Status codes\<close>

lemma setInputTensor_zero_only_after_copy:
  assumes "setInputTensor w p i a n = Returns 0 w'"
  shows "p \<noteq> 0 \<and> (\<exists>c interp t tensor dst src.
           heap w p = Some c \<and> interpreter c = Some interp
           \<and> input_tensor interp (size_t_of_jint i) = Ret (Some t)
           \<and> tensors interp t = Some tensor \<and> data_f tensor = Some dst
           \<and> float_arrays w a = Some src \<and> a \<notin> elements_refused w
           \<and> byte_count n \<le> 4 * length dst \<and> byte_count n \<le> 4 * length src)"
  using assms
  by (auto simp: setInputTensor_def setInputTensor_try_def catch_std_exception_def
      GetFloatArrayElements_def get_elements_def memcpy_def
      split: if_splits option.splits call.splits result.splits exn.splits prod.splits)

lemma getOutputTensor_zero_only_after_copy:
  assumes "getOutputTensor w p i a n = Returns 0 w'"
  shows "p \<noteq> 0 \<and> (\<exists>c interp t tensor dst src.
           heap w p = Some c \<and> interpreter c = Some interp
           \<and> output_tensor interp (size_t_of_jint i) = Ret (Some t)
           \<and> tensors interp t = Some tensor \<and> data_f tensor = Some src
           \<and> float_arrays w a = Some dst \<and> a \<notin> elements_refused w
           \<and> byte_count n \<le> 4 * length dst \<and> byte_count n \<le> 4 * length src)"
  using assms
  by (auto simp: getOutputTensor_def getOutputTensor_try_def catch_std_exception_def
      GetFloatArrayElements_def get_elements_def memcpy_def
      split: if_splits option.splits call.splits result.splits exn.splits prod.splits)

lemma invoke_zero_only_after_ok:
  assumes "invoke w p = Returns 0 w'"
  shows "p \<noteq> 0 \<and> (\<exists>c interp ts.
           heap w p = Some c \<and> interpreter c = Some interp
           \<and> Invoke interp (tensors interp) = (ts, Ret kTfLiteOk))"
  using assms
  by (auto simp: invoke_def invoke_try_def catch_std_exception_def Let_def
      split: if_splits option.splits call.splits result.splits exn.splits prod.splits)

lemma refusing_live:
  "heap refusing_world 4096 = Some example_context"
  "float_arrays refusing_world 1 = Some [10, 20, 30, 40]"
  "1 \<in> elements_refused refusing_world"
  by (simp_all add: refusing_world_def example_world_def)

lemma malformed_live:
  "heap malformed_world 4096 =
     Some (example_context\<lparr>interpreter := Some (example_interpreter\<lparr>tensors :=
            [0 \<mapsto> \<lparr>data_f = Some [1], dims = [1]\<rparr>,
             1 \<mapsto> \<lparr>data_f = Some [0, 0], dims = [1, 2]\<rparr>]\<rparr>)\<rparr>)"
  by (simp add: malformed_world_def)

lemma throwing_live:
  "heap throwing_world 4096 = Some \<lparr>model = Some [], interpreter = Some throwing_interpreter\<rparr>"
  by (simp add: throwing_world_def)

text \<open>
  C9. \<open>setInputTensor\<close>, \<open>invoke\<close> and \<open>getOutputTensor\<close> return 0 or -1
  and nothing else. Every failure path gives -1: the handle 0, a lookup that gives
  no tensor or throws a \<open>std::exception\<close>, an array JNI does not hand out, an
  \<open>Invoke\<close> that reports another status than \<open>kTfLiteOk\<close> or throws a
  \<open>std::exception\<close>. The success path gives 0, and 0 is given only there: after
  the copy was made within both buffers, or after \<open>Invoke\<close> reported
  \<open>kTfLiteOk\<close>. A return of -1 has appended one error line to the log, a return
  of 0 none.
\<close>

theorem status_is_zero_or_minus_one:
  "(setInputTensor w p i a n = Returns s w' \<longrightarrow>
      s = 0 \<and> logcat w' = logcat w
      \<or> s = - 1 \<and> (\<exists>l. logcat w' = logcat w @ [l] \<and> prio l = ANDROID_LOG_ERROR))
   \<and> (invoke w p = Returns s w' \<longrightarrow>
      s = 0 \<and> logcat w' = logcat w
      \<or> s = - 1 \<and> (\<exists>l. logcat w' = logcat w @ [l] \<and> prio l = ANDROID_LOG_ERROR))
   \<and> (getOutputTensor w p i a n = Returns s w' \<longrightarrow>
      s = 0 \<and> logcat w' = logcat w
      \<or> s = - 1 \<and> (\<exists>l. logcat w' = logcat w @ [l] \<and> prio l = ANDROID_LOG_ERROR))
   \<and> (\<exists>v. setInputTensor w 0 i a n = Returns (- 1) v)
   \<and> (\<exists>v. invoke w 0 = Returns (- 1) v)
   \<and> (\<exists>v. getOutputTensor w 0 i a n = Returns (- 1) v)
   \<and> (p \<noteq> 0 \<and> heap w p = Some c \<and> interpreter c = Some interp \<longrightarrow>
        (input_tensor interp (size_t_of_jint i) = Ret None \<longrightarrow>
           (\<exists>v. setInputTensor w p i a n = Returns (- 1) v))
      \<and> (input_tensor interp (size_t_of_jint i) = Throw (Std_exception what) \<longrightarrow>
           (\<exists>v. setInputTensor w p i a n = Returns (- 1) v))
      \<and> (input_tensor interp (size_t_of_jint i) = Ret (Some t)
          \<and> float_arrays w a = Some xs \<and> a \<in> elements_refused w \<longrightarrow>
           (\<exists>v. setInputTensor w p i a n = Returns (- 1) v))
      \<and> (input_tensor interp (size_t_of_jint i) = Ret (Some t)
          \<and> float_arrays w a = Some xs \<and> a \<notin> elements_refused w
          \<and> tensors interp t = Some tensor \<and> data_f tensor = Some buf
          \<and> 0 \<le> sint n \<and> nat (sint n) \<le> length xs \<and> nat (sint n) \<le> length buf \<longrightarrow>
           (\<exists>v. setInputTensor w p i a n = Returns 0 v))
      \<and> (Invoke interp (tensors interp) = (ts, Ret status) \<and> status \<noteq> kTfLiteOk \<longrightarrow>
           (\<exists>v. invoke w p = Returns (- 1) v))
      \<and> (Invoke interp (tensors interp) = (ts, Throw (Std_exception what)) \<longrightarrow>
           (\<exists>v. invoke w p = Returns (- 1) v))
      \<and> (Invoke interp (tensors interp) = (ts, Ret kTfLiteOk) \<longrightarrow>
           (\<exists>v. invoke w p = Returns 0 v))
      \<and> (output_tensor interp (size_t_of_jint i) = Ret None \<longrightarrow>
           (\<exists>v. getOutputTensor w p i a n = Returns (- 1) v))
      \<and> (output_tensor interp (size_t_of_jint i) = Throw (Std_exception what) \<longrightarrow>
           (\<exists>v. getOutputTensor w p i a n = Returns (- 1) v))
      \<and> (output_tensor interp (size_t_of_jint i) = Ret (Some t)
          \<and> float_arrays w a = Some xs \<and> a \<in> elements_refused w \<longrightarrow>
           (\<exists>v. getOutputTensor w p i a n = Returns (- 1) v))
      \<and> (output_tensor interp (size_t_of_jint i) = Ret (Some t)
          \<and> float_arrays w a = Some xs \<and> a \<notin> elements_refused w
          \<and> tensors interp t = Some tensor \<and> data_f tensor = Some buf
          \<and> 0 \<le> sint n \<and> nat (sint n) \<le> length xs \<and> nat (sint n) \<le> length buf \<longrightarrow>
           (\<exists>v. getOutputTensor w p i a n = Returns 0 v)))
   \<and> (setInputTensor w p i a n = Returns 0 w' \<longrightarrow>
        p \<noteq> 0 \<and> (\<exists>c interp t tensor dst src.
           heap w p = Some c \<and> interpreter c = Some interp
           \<and> input_tensor interp (size_t_of_jint i) = Ret (Some t)
           \<and> tensors interp t = Some tensor \<and> data_f tensor = Some dst
           \<and> float_arrays w a = Some src \<and> a \<notin> elements_refused w
           \<and> byte_count n \<le> 4 * length dst \<and> byte_count n \<le> 4 * length src))
   \<and> (invoke w p = Returns 0 w' \<longrightarrow>
        p \<noteq> 0 \<and> (\<exists>c interp ts.
           heap w p = Some c \<and> interpreter c = Some interp
           \<and> Invoke interp (tensors interp) = (ts, Ret kTfLiteOk)))
   \<and> (getOutputTensor w p i a n = Returns 0 w' \<longrightarrow>
        p \<noteq> 0 \<and> (\<exists>c interp t tensor dst src.
           heap w p = Some c \<and> interpreter c = Some interp
           \<and> output_tensor interp (size_t_of_jint i) = Ret (Some t)
           \<and> tensors interp t = Some tensor \<and> data_f tensor = Some src
           \<and> float_arrays w a = Some dst \<and> a \<notin> elements_refused w
           \<and> byte_count n \<le> 4 * length dst \<and> byte_count n \<le> 4 * length src))"
proof -
  have log: "(setInputTensor w p i a n = Returns s w' \<longrightarrow>
      s = 0 \<and> logcat w' = logcat w
      \<or> s = - 1 \<and> (\<exists>l. logcat w' = logcat w @ [l] \<and> prio l = ANDROID_LOG_ERROR))"
    "(invoke w p = Returns s w' \<longrightarrow>
      s = 0 \<and> logcat w' = logcat w
      \<or> s = - 1 \<and> (\<exists>l. logcat w' = logcat w @ [l] \<and> prio l = ANDROID_LOG_ERROR))"
    "(getOutputTensor w p i a n = Returns s w' \<longrightarrow>
      s = 0 \<and> logcat w' = logcat w
      \<or> s = - 1 \<and> (\<exists>l. logcat w' = logcat w @ [l] \<and> prio l = ANDROID_LOG_ERROR))"
    by (auto simp: setInputTensor_def setInputTensor_try_def invoke_def invoke_try_def
        getOutputTensor_def getOutputTensor_try_def catch_std_exception_def
        GetFloatArrayElements_def get_elements_def LOGE_def Let_def
        ReleaseFloatArrayElements_def store_tensor_def
        split: if_splits option.splits call.splits result.splits exn.splits prod.splits)
  have sentinel: "\<exists>v. setInputTensor w 0 i a n = Returns (- 1) v"
    "\<exists>v. invoke w 0 = Returns (- 1) v"
    "\<exists>v. getOutputTensor w 0 i a n = Returns (- 1) v"
    by (simp_all add: setInputTensor_def invoke_def getOutputTensor_def)
  have live: "(input_tensor interp (size_t_of_jint i) = Ret None \<longrightarrow>
           (\<exists>v. setInputTensor w p i a n = Returns (- 1) v))
      \<and> (input_tensor interp (size_t_of_jint i) = Throw (Std_exception what) \<longrightarrow>
           (\<exists>v. setInputTensor w p i a n = Returns (- 1) v))
      \<and> (input_tensor interp (size_t_of_jint i) = Ret (Some t)
          \<and> float_arrays w a = Some xs \<and> a \<in> elements_refused w \<longrightarrow>
           (\<exists>v. setInputTensor w p i a n = Returns (- 1) v))
      \<and> (input_tensor interp (size_t_of_jint i) = Ret (Some t)
          \<and> float_arrays w a = Some xs \<and> a \<notin> elements_refused w
          \<and> tensors interp t = Some tensor \<and> data_f tensor = Some buf
          \<and> 0 \<le> sint n \<and> nat (sint n) \<le> length xs \<and> nat (sint n) \<le> length buf \<longrightarrow>
           (\<exists>v. setInputTensor w p i a n = Returns 0 v))
      \<and> (Invoke interp (tensors interp) = (ts, Ret status) \<and> status \<noteq> kTfLiteOk \<longrightarrow>
           (\<exists>v. invoke w p = Returns (- 1) v))
      \<and> (Invoke interp (tensors interp) = (ts, Throw (Std_exception what)) \<longrightarrow>
           (\<exists>v. invoke w p = Returns (- 1) v))
      \<and> (Invoke interp (tensors interp) = (ts, Ret kTfLiteOk) \<longrightarrow>
           (\<exists>v. invoke w p = Returns 0 v))
      \<and> (output_tensor interp (size_t_of_jint i) = Ret None \<longrightarrow>
           (\<exists>v. getOutputTensor w p i a n = Returns (- 1) v))
      \<and> (output_tensor interp (size_t_of_jint i) = Throw (Std_exception what) \<longrightarrow>
           (\<exists>v. getOutputTensor w p i a n = Returns (- 1) v))
      \<and> (output_tensor interp (size_t_of_jint i) = Ret (Some t)
          \<and> float_arrays w a = Some xs \<and> a \<in> elements_refused w \<longrightarrow>
           (\<exists>v. getOutputTensor w p i a n = Returns (- 1) v))
      \<and> (output_tensor interp (size_t_of_jint i) = Ret (Some t)
          \<and> float_arrays w a = Some xs \<and> a \<notin> elements_refused w
          \<and> tensors interp t = Some tensor \<and> data_f tensor = Some buf
          \<and> 0 \<le> sint n \<and> nat (sint n) \<le> length xs \<and> nat (sint n) \<le> length buf \<longrightarrow>
           (\<exists>v. getOutputTensor w p i a n = Returns 0 v))"
    if "p \<noteq> 0 \<and> heap w p = Some c \<and> interpreter c = Some interp"
    using that
    by (simp add: setInputTensor_def setInputTensor_try_def invoke_def invoke_try_def
        getOutputTensor_def getOutputTensor_try_def catch_std_exception_def
        GetFloatArrayElements_def get_elements_def byte_count_nonneg memcpy_elements)
  have zero: "(setInputTensor w p i a n = Returns 0 w' \<longrightarrow>
        p \<noteq> 0 \<and> (\<exists>c interp t tensor dst src.
           heap w p = Some c \<and> interpreter c = Some interp
           \<and> input_tensor interp (size_t_of_jint i) = Ret (Some t)
           \<and> tensors interp t = Some tensor \<and> data_f tensor = Some dst
           \<and> float_arrays w a = Some src \<and> a \<notin> elements_refused w
           \<and> byte_count n \<le> 4 * length dst \<and> byte_count n \<le> 4 * length src))"
    "(invoke w p = Returns 0 w' \<longrightarrow>
        p \<noteq> 0 \<and> (\<exists>c interp ts.
           heap w p = Some c \<and> interpreter c = Some interp
           \<and> Invoke interp (tensors interp) = (ts, Ret kTfLiteOk)))"
    "(getOutputTensor w p i a n = Returns 0 w' \<longrightarrow>
        p \<noteq> 0 \<and> (\<exists>c interp t tensor dst src.
           heap w p = Some c \<and> interpreter c = Some interp
           \<and> output_tensor interp (size_t_of_jint i) = Ret (Some t)
           \<and> tensors interp t = Some tensor \<and> data_f tensor = Some src
           \<and> float_arrays w a = Some dst \<and> a \<notin> elements_refused w
           \<and> byte_count n \<le> 4 * length dst \<and> byte_count n \<le> 4 * length src))"
    using setInputTensor_zero_only_after_copy [of w p i a n w']
      invoke_zero_only_after_ok [of w p w']
      getOutputTensor_zero_only_after_copy [of w p i a n w']
    by blast+
  show ?thesis
    by (intro conjI; (rule log sentinel zero | (rule impI, erule live)))
qed

theorem status_is_zero_or_minus_one_witness:
  "(\<exists>v. setInputTensor example_world 4096 0 1 4 = Returns 0 v)
   \<and> (\<exists>v. setInputTensor example_world 4096 1 1 4 = Returns (- 1) v)
   \<and> (\<exists>v. setInputTensor refusing_world 4096 0 1 4 = Returns (- 1) v)
   \<and> (\<exists>v. setInputTensor example_world 0 0 1 4 = Returns (- 1) v)
   \<and> (\<exists>v. invoke example_world 4096 = Returns 0 v)
   \<and> (\<exists>v. invoke malformed_world 4096 = Returns (- 1) v)
   \<and> (\<exists>v. invoke throwing_world 4096 = Returns (- 1) v)
   \<and> (\<exists>v. invoke example_world 0 = Returns (- 1) v)
   \<and> (\<exists>v. getOutputTensor example_world 4096 0 2 2 = Returns 0 v)
   \<and> (\<exists>v. getOutputTensor example_world 4096 1 2 2 = Returns (- 1) v)
   \<and> (\<exists>v. getOutputTensor refusing_world 4096 0 1 2 = Returns (- 1) v)
   \<and> (\<exists>v. getOutputTensor example_world 0 0 2 2 = Returns (- 1) v)
   \<and> (\<exists>w' l. setInputTensor example_world 4096 1 1 4 = Returns (- 1) w'
        \<and> logcat w' = logcat example_world @ [l] \<and> prio l = ANDROID_LOG_ERROR)
   \<and> (\<exists>w'. invoke example_world 4096 = Returns 0 w' \<and> logcat w' = logcat example_world)"
proof -
  note T = status_is_zero_or_minus_one
  note S = T [THEN conjunct2, THEN conjunct2, THEN conjunct2]
  note L = S [THEN conjunct2, THEN conjunct2, THEN conjunct2, THEN conjunct1, THEN mp]
  have nz: "(4096 :: jlong) \<noteq> 0" by simp
  have lv: "(4096 :: jlong) \<noteq> 0 \<and> heap example_world 4096 = Some example_context
      \<and> interpreter example_context = Some example_interpreter"
    using example_live by simp
  have lr: "(4096 :: jlong) \<noteq> 0 \<and> heap refusing_world 4096 = Some example_context
      \<and> interpreter example_context = Some example_interpreter"
    using refusing_live example_live by simp
  have lm: "(4096 :: jlong) \<noteq> 0 \<and> heap malformed_world 4096 =
       Some (example_context\<lparr>interpreter := Some (example_interpreter\<lparr>tensors :=
            [0 \<mapsto> \<lparr>data_f = Some [1], dims = [1]\<rparr>,
             1 \<mapsto> \<lparr>data_f = Some [0, 0], dims = [1, 2]\<rparr>]\<rparr>)\<rparr>)
      \<and> interpreter (example_context\<lparr>interpreter := Some (example_interpreter\<lparr>tensors :=
            [0 \<mapsto> \<lparr>data_f = Some [1], dims = [1]\<rparr>,
             1 \<mapsto> \<lparr>data_f = Some [0, 0], dims = [1, 2]\<rparr>]\<rparr>)\<rparr>)
          = Some (example_interpreter\<lparr>tensors :=
            [0 \<mapsto> \<lparr>data_f = Some [1], dims = [1]\<rparr>,
             1 \<mapsto> \<lparr>data_f = Some [0, 0], dims = [1, 2]\<rparr>]\<rparr>)"
    using malformed_live by simp
  have lt: "(4096 :: jlong) \<noteq> 0
      \<and> heap throwing_world 4096 = Some \<lparr>model = Some [], interpreter = Some throwing_interpreter\<rparr>
      \<and> interpreter \<lparr>model = Some [], interpreter = Some throwing_interpreter\<rparr>
          = Some throwing_interpreter"
    using throwing_live by simp
  have s0: "\<exists>v. setInputTensor example_world 4096 0 1 4 = Returns 0 v"
  proof -
    have "input_tensor example_interpreter (size_t_of_jint 0) = Ret (Some 0)
          \<and> float_arrays example_world 1 = Some [10, 20, 30, 40]
          \<and> 1 \<notin> elements_refused example_world
          \<and> tensors example_interpreter 0 = Some \<lparr>data_f = Some [0, 0, 0, 0], dims = [1, 4]\<rparr>
          \<and> data_f \<lparr>data_f = Some [0, 0, 0, 0], dims = [1, 4]\<rparr> = Some [0, 0, 0, 0]
          \<and> 0 \<le> sint (4 :: jint) \<and> nat (sint (4 :: jint)) \<le> length [10 :: jfloat, 20, 30, 40]
          \<and> nat (sint (4 :: jint)) \<le> length [0 :: jfloat, 0, 0, 0]"
      using example_slots example_arrays by simp
    then show ?thesis
      by (rule L [OF lv, THEN conjunct2, THEN conjunct2, THEN conjunct2, THEN conjunct1, THEN mp])
  qed
  have s1: "\<exists>v. setInputTensor example_world 4096 1 1 4 = Returns (- 1) v"
    by (rule L [OF lv, THEN conjunct1, THEN mp, OF example_slots(2)])
  have s2: "\<exists>v. setInputTensor refusing_world 4096 0 1 4 = Returns (- 1) v"
  proof -
    have "input_tensor example_interpreter (size_t_of_jint 0) = Ret (Some 0)
          \<and> float_arrays refusing_world 1 = Some [10, 20, 30, 40]
          \<and> 1 \<in> elements_refused refusing_world"
      using example_slots refusing_live by simp
    then show ?thesis
      by (rule L [OF lr, THEN conjunct2, THEN conjunct2, THEN conjunct1, THEN mp])
  qed
  have s3: "\<exists>v. setInputTensor example_world 0 0 1 4 = Returns (- 1) v"
    by (rule S [THEN conjunct1])
  have i0: "\<exists>v. invoke example_world 4096 = Returns 0 v"
  proof -
    have "Invoke example_interpreter (tensors example_interpreter) =
        ((tensors example_interpreter)(1 \<mapsto> \<lparr>data_f = Some [0, 0], dims = [1, 2]\<rparr>),
         Ret kTfLiteOk)"
      by (simp add: example_interpreter_def example_Invoke_def example_output_def
          example_tensors_def)
    then show ?thesis
      by (rule L [OF lv, THEN conjunct2, THEN conjunct2, THEN conjunct2, THEN conjunct2,
            THEN conjunct2, THEN conjunct2, THEN conjunct1, THEN mp])
  qed
  have i1: "\<exists>v. invoke malformed_world 4096 = Returns (- 1) v"
  proof -
    let ?I = "example_interpreter\<lparr>tensors :=
            [0 \<mapsto> \<lparr>data_f = Some [1], dims = [1]\<rparr>,
             1 \<mapsto> \<lparr>data_f = Some [0, 0], dims = [1, 2]\<rparr>]\<rparr>"
    have "Invoke ?I (tensors ?I) =
        ((tensors ?I)(1 \<mapsto> \<lparr>data_f = Some [0, 0], dims = [1, 2]\<rparr>), Ret kTfLiteError)
        \<and> kTfLiteError \<noteq> kTfLiteOk"
      by (simp add: example_interpreter_def example_Invoke_def example_output_def)
    then show ?thesis
      by (rule L [OF lm, THEN conjunct2, THEN conjunct2, THEN conjunct2, THEN conjunct2,
            THEN conjunct1, THEN mp])
  qed
  have i2: "\<exists>v. invoke throwing_world 4096 = Returns (- 1) v"
  proof -
    have "Invoke throwing_interpreter (tensors throwing_interpreter) =
        (tensors throwing_interpreter, Throw (Std_exception ''bad kernel''))"
      by (simp add: throwing_interpreter_def)
    then show ?thesis
      by (rule L [OF lt, THEN conjunct2, THEN conjunct2, THEN conjunct2, THEN conjunct2,
            THEN conjunct2, THEN conjunct1, THEN mp])
  qed
  have i3: "\<exists>v. invoke example_world 0 = Returns (- 1) v"
    by (rule S [THEN conjunct2, THEN conjunct1])
  note G = L [THEN conjunct2, THEN conjunct2, THEN conjunct2, THEN conjunct2,
            THEN conjunct2, THEN conjunct2, THEN conjunct2]
  have g0: "\<exists>v. getOutputTensor example_world 4096 0 2 2 = Returns 0 v"
  proof -
    have "output_tensor example_interpreter (size_t_of_jint 0) = Ret (Some 1)
          \<and> float_arrays example_world 2 = Some [7, 7]
          \<and> 2 \<notin> elements_refused example_world
          \<and> tensors example_interpreter 1 = Some \<lparr>data_f = Some [0, 0], dims = [1, 2]\<rparr>
          \<and> data_f \<lparr>data_f = Some [0, 0], dims = [1, 2]\<rparr> = Some [0, 0]
          \<and> 0 \<le> sint (2 :: jint) \<and> nat (sint (2 :: jint)) \<le> length [7 :: jfloat, 7]
          \<and> nat (sint (2 :: jint)) \<le> length [0 :: jfloat, 0]"
      using example_slots example_arrays by simp
    then show ?thesis
      by (rule G [OF lv, THEN conjunct2, THEN conjunct2, THEN conjunct2, THEN mp])
  qed
  have g1: "\<exists>v. getOutputTensor example_world 4096 1 2 2 = Returns (- 1) v"
    by (rule G [OF lv, THEN conjunct1, THEN mp, OF example_slots(4)])
  have g2: "\<exists>v. getOutputTensor refusing_world 4096 0 1 2 = Returns (- 1) v"
  proof -
    have "output_tensor example_interpreter (size_t_of_jint 0) = Ret (Some 1)
          \<and> float_arrays refusing_world 1 = Some [10, 20, 30, 40]
          \<and> 1 \<in> elements_refused refusing_world"
      using example_slots refusing_live by simp
    then show ?thesis
      by (rule G [OF lr, THEN conjunct2, THEN conjunct2, THEN conjunct1, THEN mp])
  qed
  have g3: "\<exists>v. getOutputTensor example_world 0 0 2 2 = Returns (- 1) v"
    by (rule S [THEN conjunct2, THEN conjunct2, THEN conjunct1])
  have b: "\<exists>w' l. setInputTensor example_world 4096 1 1 4 = Returns (- 1) w'
        \<and> logcat w' = logcat example_world @ [l] \<and> prio l = ANDROID_LOG_ERROR"
    using T [THEN conjunct1, THEN mp, OF example_setInputTensor_missing]
      example_setInputTensor_missing
    by simp
  have c: "\<exists>w'. invoke example_world 4096 = Returns 0 w' \<and> logcat w' = logcat example_world"
    using T [THEN conjunct2, THEN conjunct1, THEN mp, OF example_invoke]
      example_invoke
    by simp
  show ?thesis
    using s0 s1 s2 s3 i0 i1 i2 i3 g0 g1 g2 g3 b c by (intro conjI)
qed

section \<open>The caller's arrays\<close>

text \<open>
  C10. \<open>setInputTensor\<close> never changes a Java float array: whether it returns 0 or
  -1, or lets an exception escape, the arrays are as before, and when it returns no
  element buffer is left outstanding (the source is released with \<open>JNI_ABORT\<close>).
  \<open>getOutputTensor\<close>, on a live session with a tensor behind the slot, an
  accessible destination and a length within both buffers, releases with mode 0: the
  destination array then holds the copied elements.
\<close>

theorem input_array_untouched_output_committed:
  "(setInputTensor w p i data n = Returns s w' \<longrightarrow>
      float_arrays w' = float_arrays w \<and> outstanding w' = outstanding w)
   \<and> (setInputTensor w p i data n = Propagates e w' \<longrightarrow> float_arrays w' = float_arrays w)
   \<and> (p \<noteq> 0 \<and> heap w p = Some c \<and> interpreter c = Some interp
        \<and> output_tensor interp (size_t_of_jint j) = Ret (Some t)
        \<and> tensors interp t = Some tout \<and> data_f tout = Some src
        \<and> float_arrays w out = Some dst \<and> out \<notin> elements_refused w
        \<and> 0 \<le> sint m \<and> nat (sint m) \<le> length src \<and> nat (sint m) \<le> length dst
      \<longrightarrow> getOutputTensor w p j out m =
            Returns 0 (w\<lparr>float_arrays := (float_arrays w)(out \<mapsto>
               take (nat (sint m)) src @ drop (nat (sint m)) dst)\<rparr>))"
proof (intro conjI impI)
  assume "setInputTensor w p i data n = Returns s w'"
  from setInputTensor_returns [OF this]
  show "float_arrays w' = float_arrays w" and "outstanding w' = outstanding w"
    by simp_all
next
  assume "setInputTensor w p i data n = Propagates e w'"
  from setInputTensor_propagates [OF this]
  show "float_arrays w' = float_arrays w" by simp
next
  assume "p \<noteq> 0 \<and> heap w p = Some c \<and> interpreter c = Some interp
        \<and> output_tensor interp (size_t_of_jint j) = Ret (Some t)
        \<and> tensors interp t = Some tout \<and> data_f tout = Some src
        \<and> float_arrays w out = Some dst \<and> out \<notin> elements_refused w
        \<and> 0 \<le> sint m \<and> nat (sint m) \<le> length src \<and> nat (sint m) \<le> length dst"
  then show "getOutputTensor w p j out m =
            Returns 0 (w\<lparr>float_arrays := (float_arrays w)(out \<mapsto>
               take (nat (sint m)) src @ drop (nat (sint m)) dst)\<rparr>)"
    using getOutputTensor_success [of p w c interp j t tout src out dst m] by simp
qed

theorem input_array_untouched_output_committed_witness:
  "(\<exists>w'. setInputTensor example_world 4096 0 1 4 = Returns 0 w'
       \<and> float_arrays w' 1 = Some [10, 20, 30, 40])
   \<and> (\<exists>w'. getOutputTensor example_world 4096 0 2 1 = Returns 0 w'
       \<and> float_arrays w' 2 = Some [0, 7])"
proof -
  have a: "\<exists>w'. setInputTensor example_world 4096 0 1 4 = Returns 0 w'
       \<and> float_arrays w' 1 = Some [10, 20, 30, 40]"
    using input_array_untouched_output_committed [THEN conjunct1, THEN mp,
        OF example_setInputTensor] example_setInputTensor example_arrays(1)
    by simp
  have h: "(4096 :: jlong) \<noteq> 0 \<and> heap example_world 4096 = Some example_context
        \<and> interpreter example_context = Some example_interpreter
        \<and> output_tensor example_interpreter (size_t_of_jint 0) = Ret (Some 1)
        \<and> tensors example_interpreter 1 = Some \<lparr>data_f = Some [0, 0], dims = [1, 2]\<rparr>
        \<and> data_f \<lparr>data_f = Some [0, 0], dims = [1, 2]\<rparr> = Some [0, 0]
        \<and> float_arrays example_world 2 = Some [7, 7] \<and> 2 \<notin> elements_refused example_world
        \<and> 0 \<le> sint (1 :: jint) \<and> nat (sint (1 :: jint)) \<le> length [0 :: jfloat, 0]
        \<and> nat (sint (1 :: jint)) \<le> length [7 :: jfloat, 7]"
    using example_live example_slots example_arrays by simp
  have b: "\<exists>w'. getOutputTensor example_world 4096 0 2 1 = Returns 0 w'
       \<and> float_arrays w' 2 = Some [0, 7]"
    using input_array_untouched_output_committed [THEN conjunct2, THEN conjunct2, THEN mp, OF h]
    by simp
  show ?thesis using a b by blast
qed

section \<open>Creating a session\<close>

lemma delete_fresh:
  "heap w p = None \<Longrightarrow> (heap w)(p := None) = heap w"
  by (rule fun_upd_idem)

lemma createInterpreter_try_parse_fails:
  assumes "new_address lib = Ret p" and "heap w p = None"
    and "BuildFromBuffer lib bytes sz = Ret None"
  shows "createInterpreter_try lib (w\<lparr>outstanding := a # outstanding w\<rparr>) a bytes sz =
           Returns 0 (LOGE ''Failed to create TensorFlow Lite model'' [] w)"
  using assms
  by (simp add: createInterpreter_try_def set_context_def delete_context_def LOGE_def
      ReleaseByteArrayElements_def delete_fresh)

lemma createInterpreter_try_build_fails:
  assumes "new_address lib = Ret p" and "heap w p = None"
    and "BuildFromBuffer lib bytes sz = Ret (Some m)"
    and "InterpreterBuilder lib m = Ret None"
  shows "createInterpreter_try lib (w\<lparr>outstanding := a # outstanding w\<rparr>) a bytes sz =
           Returns 0 (LOGE ''Failed to create TensorFlow Lite interpreter'' [] w)"
  using assms
  by (simp add: createInterpreter_try_def set_context_def delete_context_def LOGE_def
      ReleaseByteArrayElements_def delete_fresh)

lemma createInterpreter_try_allocate_fails:
  assumes "new_address lib = Ret p" and "heap w p = None"
    and "BuildFromBuffer lib bytes sz = Ret (Some m)"
    and "InterpreterBuilder lib m = Ret (Some interp)"
    and "AllocateTensors lib interp = Ret (interp', status)" and "status \<noteq> kTfLiteOk"
  shows "createInterpreter_try lib (w\<lparr>outstanding := a # outstanding w\<rparr>) a bytes sz =
           Returns 0 (LOGE ''Failed to allocate tensors'' [] w)"
  using assms
  by (simp add: createInterpreter_try_def set_context_def delete_context_def LOGE_def
      ReleaseByteArrayElements_def delete_fresh)

lemma createInterpreter_start:
  assumes "byte_arrays w modelData = Some bytes" and "modelData \<notin> elements_refused w"
  shows "createInterpreter lib w modelData =
      catch_std_exception
        (createInterpreter_try lib (w\<lparr>outstanding := modelData # outstanding w\<rparr>)
           modelData bytes (length bytes))
        (\<lambda>what w'. Returns 0
           (ReleaseByteArrayElements
              (LOGE ''Exception creating interpreter: %s'' [Str_arg what] w')
              modelData bytes JNI_ABORT))"
  using assms
  by (simp add: createInterpreter_def GetByteArrayElements_def get_elements_def)

text \<open>
  C3. When the model bytes are handed out and the context is allocated at a fresh
  address: if parsing gives no model, or building gives no interpreter, or
  \<open>AllocateTensors\<close> does not report \<open>kTfLiteOk\<close>, then
  \<open>createInterpreter\<close> returns the handle 0, and the world it leaves is the one it
  found with one line appended to the log: priority error, tag \<open>TFLiteUnity\<close>, and
  a message of its own for each of the three paths. Nothing else has changed, so
  nothing is leaked: the native heap holds no new context (model and interpreter went
  with it) and no element buffer is outstanding.
\<close>

theorem createInterpreter_failure_paths:
  assumes "byte_arrays w modelData = Some bytes" and "modelData \<notin> elements_refused w"
    and "new_address lib = Ret p" and "heap w p = None"
  shows
   "(BuildFromBuffer lib bytes (length bytes) = Ret None \<longrightarrow>
       createInterpreter lib w modelData =
         Returns 0 (w\<lparr>logcat := logcat w @
            [\<lparr>prio = ANDROID_LOG_ERROR, tag = ''TFLiteUnity'',
              fmt = ''Failed to create TensorFlow Lite model'', args = []\<rparr>]\<rparr>))
    \<and> (BuildFromBuffer lib bytes (length bytes) = Ret (Some m)
        \<and> InterpreterBuilder lib m = Ret None \<longrightarrow>
       createInterpreter lib w modelData =
         Returns 0 (w\<lparr>logcat := logcat w @
            [\<lparr>prio = ANDROID_LOG_ERROR, tag = ''TFLiteUnity'',
              fmt = ''Failed to create TensorFlow Lite interpreter'', args = []\<rparr>]\<rparr>))
    \<and> (BuildFromBuffer lib bytes (length bytes) = Ret (Some m)
        \<and> InterpreterBuilder lib m = Ret (Some interp)
        \<and> AllocateTensors lib interp = Ret (interp', status) \<and> status \<noteq> kTfLiteOk \<longrightarrow>
       createInterpreter lib w modelData =
         Returns 0 (w\<lparr>logcat := logcat w @
            [\<lparr>prio = ANDROID_LOG_ERROR, tag = ''TFLiteUnity'',
              fmt = ''Failed to allocate tensors'', args = []\<rparr>]\<rparr>))
    \<and> ''Failed to create TensorFlow Lite model'' \<noteq> ''Failed to create TensorFlow Lite interpreter''
    \<and> ''Failed to create TensorFlow Lite model'' \<noteq> ''Failed to allocate tensors''
    \<and> ''Failed to create TensorFlow Lite interpreter'' \<noteq> ''Failed to allocate tensors''"
proof -
  note start = createInterpreter_start [OF assms(1,2), of lib]
  have a: "BuildFromBuffer lib bytes (length bytes) = Ret None \<Longrightarrow>
       createInterpreter lib w modelData =
         Returns 0 (w\<lparr>logcat := logcat w @
            [\<lparr>prio = ANDROID_LOG_ERROR, tag = ''TFLiteUnity'',
              fmt = ''Failed to create TensorFlow Lite model'', args = []\<rparr>]\<rparr>)"
    using assms(3,4)
    by (simp add: start catch_std_exception_def createInterpreter_try_def set_context_def
        delete_context_def ReleaseByteArrayElements_def delete_fresh LOGE_def LOG_TAG_def)
  have b: "BuildFromBuffer lib bytes (length bytes) = Ret (Some m)
        \<and> InterpreterBuilder lib m = Ret None \<Longrightarrow>
       createInterpreter lib w modelData =
         Returns 0 (w\<lparr>logcat := logcat w @
            [\<lparr>prio = ANDROID_LOG_ERROR, tag = ''TFLiteUnity'',
              fmt = ''Failed to create TensorFlow Lite interpreter'', args = []\<rparr>]\<rparr>)"
    using assms(3,4)
    by (simp add: start catch_std_exception_def createInterpreter_try_def set_context_def
        delete_context_def ReleaseByteArrayElements_def delete_fresh LOGE_def LOG_TAG_def)
  have c: "BuildFromBuffer lib bytes (length bytes) = Ret (Some m)
        \<and> InterpreterBuilder lib m = Ret (Some interp)
        \<and> AllocateTensors lib interp = Ret (interp', status) \<and> status \<noteq> kTfLiteOk \<Longrightarrow>
       createInterpreter lib w modelData =
         Returns 0 (w\<lparr>logcat := logcat w @
            [\<lparr>prio = ANDROID_LOG_ERROR, tag = ''TFLiteUnity'',
              fmt = ''Failed to allocate tensors'', args = []\<rparr>]\<rparr>)"
    using assms(3,4)
    by (simp add: start catch_std_exception_def createInterpreter_try_def set_context_def
        delete_context_def ReleaseByteArrayElements_def delete_fresh LOGE_def LOG_TAG_def)
  show ?thesis
  proof (intro conjI impI)
    assume "BuildFromBuffer lib bytes (length bytes) = Ret None"
    then show "createInterpreter lib w modelData =
         Returns 0 (w\<lparr>logcat := logcat w @
            [\<lparr>prio = ANDROID_LOG_ERROR, tag = ''TFLiteUnity'',
              fmt = ''Failed to create TensorFlow Lite model'', args = []\<rparr>]\<rparr>)"
      by (rule a)
  next
    assume "BuildFromBuffer lib bytes (length bytes) = Ret (Some m)
        \<and> InterpreterBuilder lib m = Ret None"
    then show "createInterpreter lib w modelData =
         Returns 0 (w\<lparr>logcat := logcat w @
            [\<lparr>prio = ANDROID_LOG_ERROR, tag = ''TFLiteUnity'',
              fmt = ''Failed to create TensorFlow Lite interpreter'', args = []\<rparr>]\<rparr>)"
      by (rule b)
  next
    assume "BuildFromBuffer lib bytes (length bytes) = Ret (Some m)
        \<and> InterpreterBuilder lib m = Ret (Some interp)
        \<and> AllocateTensors lib interp = Ret (interp', status) \<and> status \<noteq> kTfLiteOk"
    then show "createInterpreter lib w modelData =
         Returns 0 (w\<lparr>logcat := logcat w @
            [\<lparr>prio = ANDROID_LOG_ERROR, tag = ''TFLiteUnity'',
              fmt = ''Failed to allocate tensors'', args = []\<rparr>]\<rparr>)"
      by (rule c)
  qed simp_all
qed

theorem createInterpreter_failure_paths_witness:
  "createInterpreter (example_lib None None kTfLiteOk) example_world 4 =
     Returns 0 (example_world\<lparr>logcat := logcat example_world @
        [\<lparr>prio = ANDROID_LOG_ERROR, tag = ''TFLiteUnity'',
          fmt = ''Failed to create TensorFlow Lite model'', args = []\<rparr>]\<rparr>)
   \<and> createInterpreter (example_lib (Some [1, 2, 3]) None kTfLiteOk) example_world 4 =
     Returns 0 (example_world\<lparr>logcat := logcat example_world @
        [\<lparr>prio = ANDROID_LOG_ERROR, tag = ''TFLiteUnity'',
          fmt = ''Failed to create TensorFlow Lite interpreter'', args = []\<rparr>]\<rparr>)
   \<and> createInterpreter (example_lib (Some [1, 2, 3]) (Some example_interpreter) kTfLiteError)
       example_world 4 =
     Returns 0 (example_world\<lparr>logcat := logcat example_world @
        [\<lparr>prio = ANDROID_LOG_ERROR, tag = ''TFLiteUnity'',
          fmt = ''Failed to allocate tensors'', args = []\<rparr>]\<rparr>)
   \<and> logcat example_world = []
   \<and> heap example_world 8192 = None"
proof -
  have h: "byte_arrays example_world 4 = Some [1, 2, 3]"
    "4 \<notin> elements_refused example_world"
    "heap example_world 8192 = None"
    "logcat example_world = []"
    by (simp_all add: example_world_def)
  have n: "new_address (example_lib m i s) = Ret 8192" for m i s
    by (simp add: example_lib_def)
  have a: "createInterpreter (example_lib None None kTfLiteOk) example_world 4 =
     Returns 0 (example_world\<lparr>logcat := logcat example_world @
        [\<lparr>prio = ANDROID_LOG_ERROR, tag = ''TFLiteUnity'',
          fmt = ''Failed to create TensorFlow Lite model'', args = []\<rparr>]\<rparr>)"
    using createInterpreter_failure_paths [OF h(1) h(2) n [of None None kTfLiteOk] h(3),
        THEN conjunct1]
    by (simp add: example_lib_def)
  have b: "createInterpreter (example_lib (Some [1, 2, 3]) None kTfLiteOk) example_world 4 =
     Returns 0 (example_world\<lparr>logcat := logcat example_world @
        [\<lparr>prio = ANDROID_LOG_ERROR, tag = ''TFLiteUnity'',
          fmt = ''Failed to create TensorFlow Lite interpreter'', args = []\<rparr>]\<rparr>)"
    using createInterpreter_failure_paths [OF h(1) h(2) n [of "Some [1, 2, 3]" None kTfLiteOk] h(3),
        THEN conjunct2, THEN conjunct1, of "[1, 2, 3]"]
    by (simp add: example_lib_def)
  have c: "createInterpreter (example_lib (Some [1, 2, 3]) (Some example_interpreter) kTfLiteError)
       example_world 4 =
     Returns 0 (example_world\<lparr>logcat := logcat example_world @
        [\<lparr>prio = ANDROID_LOG_ERROR, tag = ''TFLiteUnity'',
          fmt = ''Failed to allocate tensors'', args = []\<rparr>]\<rparr>)"
    using createInterpreter_failure_paths
        [OF h(1) h(2) n [of "Some [1, 2, 3]" "Some example_interpreter" kTfLiteError] h(3),
         THEN conjunct2, THEN conjunct2, THEN conjunct1,
         of "[1, 2, 3]" example_interpreter example_interpreter kTfLiteError]
    by (simp add: example_lib_def)
  show ?thesis using a b c h(3,4) by (intro conjI)
qed

section \<open>Exceptions at the boundary\<close>

lemma catch_std_exception_no_std:
  assumes "\<And>what v. \<exists>r v'. handler what v = Returns r v'"
  shows "catch_std_exception body handler \<noteq> Propagates (Std_exception m) w'"
proof (cases body)
  case (Propagates e v)
  show ?thesis
  proof (cases e)
    case (Std_exception what)
    obtain r v' where "handler what v = Returns r v'" using assms by blast
    then show ?thesis using Propagates Std_exception by (simp add: catch_std_exception_def)
  next
    case Foreign_throw
    then show ?thesis using Propagates by (simp add: catch_std_exception_def)
  qed
qed (simp_all add: catch_std_exception_def)

lemma catch_std_exception_Throw:
  "catch_std_exception (Propagates (Std_exception what) v) handler = handler what v"
  by (simp add: catch_std_exception_def)

lemma create_unwind:
  "heap w q = None \<Longrightarrow>
   delete_context (set_context (set_context (set_context w q c1) q c2) q c3) q = w"
  "heap w q = None \<Longrightarrow> delete_context (set_context (set_context w q c1) q c2) q = w"
  "heap w q = None \<Longrightarrow> delete_context (set_context w q c1) q = w"
  by (simp_all add: delete_context_def set_context_def delete_fresh)

text \<open>
  C2, as the code has it. The six entry points with a \<open>try\<close> block
  (\<open>createInterpreter\<close>, \<open>setInputTensor\<close>, \<open>invoke\<close>,
  \<open>getOutputTensor\<close>, \<open>getInputTensorShape\<close>, \<open>getOutputTensorShape\<close>)
  never let an exception derived from \<open>std::exception\<close> escape. At every call
  inside a \<open>try\<close> block that can throw (the allocation, parsing, building and
  tensor allocation of \<open>createInterpreter\<close>; the slot lookups; \<open>Invoke\<close>),
  a thrown \<open>std::exception\<close> ends in the entry point's failure signal (handle 0,
  status -1, or a plain return) with one error line carrying \<open>what()\<close> appended
  to the log, and a thrown object of any other type reaches the caller.
  \<open>destroyInterpreter\<close> and the two count functions have no \<open>try\<close> block
  and call nothing that throws.
\<close>

theorem std_exceptions_become_failure_signals:
  "setInputTensor w p i a n \<noteq> Propagates (Std_exception what) w'
   \<and> invoke w p \<noteq> Propagates (Std_exception what) w'
   \<and> getOutputTensor w p i a n \<noteq> Propagates (Std_exception what) w'
   \<and> getInputTensorShape w p i sh \<noteq> Propagates (Std_exception what) w'
   \<and> getOutputTensorShape w p i sh \<noteq> Propagates (Std_exception what) w'
   \<and> createInterpreter lib w md \<noteq> Propagates (Std_exception what) w'
   \<and> destroyInterpreter w p \<noteq> Propagates e w'
   \<and> getInputTensorCount w p \<noteq> Propagates e w'
   \<and> getOutputTensorCount w p \<noteq> Propagates e w'
   \<and> (p \<noteq> 0 \<and> heap w p = Some c \<and> interpreter c = Some interp \<longrightarrow>
        (Invoke interp (tensors interp) = (ts, Throw e) \<longrightarrow>
           invoke w p =
             (case e of
                Std_exception msg \<Rightarrow>
                  Returns (- 1)
                    (w\<lparr>heap := (heap w)(p \<mapsto> c\<lparr>interpreter := Some (interp\<lparr>tensors := ts\<rparr>)\<rparr>),
                       logcat := logcat w @
                         [\<lparr>prio = ANDROID_LOG_ERROR, tag = ''TFLiteUnity'',
                           fmt = ''Exception during inference: %s'', args = [Str_arg msg]\<rparr>]\<rparr>)
              | Foreign_throw \<Rightarrow>
                  Propagates Foreign_throw
                    (w\<lparr>heap := (heap w)(p \<mapsto> c\<lparr>interpreter := Some (interp\<lparr>tensors := ts\<rparr>)\<rparr>)\<rparr>)))
      \<and> (input_tensor interp (size_t_of_jint i) = Throw e \<longrightarrow>
           setInputTensor w p i a n =
             (case e of
                Std_exception msg \<Rightarrow>
                  Returns (- 1)
                    (w\<lparr>logcat := logcat w @
                         [\<lparr>prio = ANDROID_LOG_ERROR, tag = ''TFLiteUnity'',
                           fmt = ''Exception setting input tensor: %s'', args = [Str_arg msg]\<rparr>]\<rparr>)
              | Foreign_throw \<Rightarrow> Propagates Foreign_throw w)
           \<and> getInputTensorShape w p i sh =
             (case e of
                Std_exception msg \<Rightarrow>
                  Returns ()
                    (w\<lparr>logcat := logcat w @
                         [\<lparr>prio = ANDROID_LOG_ERROR, tag = ''TFLiteUnity'',
                           fmt = ''Exception getting input tensor shape: %s'',
                           args = [Str_arg msg]\<rparr>]\<rparr>)
              | Foreign_throw \<Rightarrow> Propagates Foreign_throw w))
      \<and> (output_tensor interp (size_t_of_jint i) = Throw e \<longrightarrow>
           getOutputTensor w p i a n =
             (case e of
                Std_exception msg \<Rightarrow>
                  Returns (- 1)
                    (w\<lparr>logcat := logcat w @
                         [\<lparr>prio = ANDROID_LOG_ERROR, tag = ''TFLiteUnity'',
                           fmt = ''Exception getting output tensor: %s'', args = [Str_arg msg]\<rparr>]\<rparr>)
              | Foreign_throw \<Rightarrow> Propagates Foreign_throw w)
           \<and> getOutputTensorShape w p i sh =
             (case e of
                Std_exception msg \<Rightarrow>
                  Returns ()
                    (w\<lparr>logcat := logcat w @
                         [\<lparr>prio = ANDROID_LOG_ERROR, tag = ''TFLiteUnity'',
                           fmt = ''Exception getting output tensor shape: %s'',
                           args = [Str_arg msg]\<rparr>]\<rparr>)
              | Foreign_throw \<Rightarrow> Propagates Foreign_throw w)))
   \<and> (byte_arrays w md = Some bytes \<and> md \<notin> elements_refused w
        \<and> (new_address lib = Throw e
           \<or> new_address lib = Ret q \<and> heap w q = None
              \<and> (BuildFromBuffer lib bytes (length bytes) = Throw e
                 \<or> BuildFromBuffer lib bytes (length bytes) = Ret (Some m)
                    \<and> (InterpreterBuilder lib m = Throw e
                       \<or> InterpreterBuilder lib m = Ret (Some interp0)
                          \<and> AllocateTensors lib interp0 = Throw e))) \<longrightarrow>
       createInterpreter lib w md =
         (case e of
            Std_exception msg \<Rightarrow>
              Returns 0
                (w\<lparr>logcat := logcat w @
                     [\<lparr>prio = ANDROID_LOG_ERROR, tag = ''TFLiteUnity'',
                       fmt = ''Exception creating interpreter: %s'', args = [Str_arg msg]\<rparr>]\<rparr>)
          | Foreign_throw \<Rightarrow>
              Propagates Foreign_throw (w\<lparr>outstanding := md # outstanding w\<rparr>)))"
proof -
  have never:
    "setInputTensor w p i a n \<noteq> Propagates (Std_exception what) w'"
    "invoke w p \<noteq> Propagates (Std_exception what) w'"
    "getOutputTensor w p i a n \<noteq> Propagates (Std_exception what) w'"
    "getInputTensorShape w p i sh \<noteq> Propagates (Std_exception what) w'"
    "getOutputTensorShape w p i sh \<noteq> Propagates (Std_exception what) w'"
    "createInterpreter lib w md \<noteq> Propagates (Std_exception what) w'"
    "destroyInterpreter w p \<noteq> Propagates e w'"
    "getInputTensorCount w p \<noteq> Propagates e w'"
    "getOutputTensorCount w p \<noteq> Propagates e w'"
    by (simp_all add: setInputTensor_def invoke_def getOutputTensor_def getInputTensorShape_def
        getOutputTensorShape_def createInterpreter_def destroyInterpreter_def
        getInputTensorCount_def getOutputTensorCount_def catch_std_exception_no_std
        split: option.splits prod.splits)
  have live: "(Invoke interp (tensors interp) = (ts, Throw e) \<longrightarrow>
           invoke w p =
             (case e of
                Std_exception msg \<Rightarrow>
                  Returns (- 1)
                    (w\<lparr>heap := (heap w)(p \<mapsto> c\<lparr>interpreter := Some (interp\<lparr>tensors := ts\<rparr>)\<rparr>),
                       logcat := logcat w @
                         [\<lparr>prio = ANDROID_LOG_ERROR, tag = ''TFLiteUnity'',
                           fmt = ''Exception during inference: %s'', args = [Str_arg msg]\<rparr>]\<rparr>)
              | Foreign_throw \<Rightarrow>
                  Propagates Foreign_throw
                    (w\<lparr>heap := (heap w)(p \<mapsto> c\<lparr>interpreter := Some (interp\<lparr>tensors := ts\<rparr>)\<rparr>)\<rparr>)))
      \<and> (input_tensor interp (size_t_of_jint i) = Throw e \<longrightarrow>
           setInputTensor w p i a n =
             (case e of
                Std_exception msg \<Rightarrow>
                  Returns (- 1)
                    (w\<lparr>logcat := logcat w @
                         [\<lparr>prio = ANDROID_LOG_ERROR, tag = ''TFLiteUnity'',
                           fmt = ''Exception setting input tensor: %s'', args = [Str_arg msg]\<rparr>]\<rparr>)
              | Foreign_throw \<Rightarrow> Propagates Foreign_throw w)
           \<and> getInputTensorShape w p i sh =
             (case e of
                Std_exception msg \<Rightarrow>
                  Returns ()
                    (w\<lparr>logcat := logcat w @
                         [\<lparr>prio = ANDROID_LOG_ERROR, tag = ''TFLiteUnity'',
                           fmt = ''Exception getting input tensor shape: %s'',
                           args = [Str_arg msg]\<rparr>]\<rparr>)
              | Foreign_throw \<Rightarrow> Propagates Foreign_throw w))
      \<and> (output_tensor interp (size_t_of_jint i) = Throw e \<longrightarrow>
           getOutputTensor w p i a n =
             (case e of
                Std_exception msg \<Rightarrow>
                  Returns (- 1)
                    (w\<lparr>logcat := logcat w @
                         [\<lparr>prio = ANDROID_LOG_ERROR, tag = ''TFLiteUnity'',
                           fmt = ''Exception getting output tensor: %s'', args = [Str_arg msg]\<rparr>]\<rparr>)
              | Foreign_throw \<Rightarrow> Propagates Foreign_throw w)
           \<and> getOutputTensorShape w p i sh =
             (case e of
                Std_exception msg \<Rightarrow>
                  Returns ()
                    (w\<lparr>logcat := logcat w @
                         [\<lparr>prio = ANDROID_LOG_ERROR, tag = ''TFLiteUnity'',
                           fmt = ''Exception getting output tensor shape: %s'',
                           args = [Str_arg msg]\<rparr>]\<rparr>)
              | Foreign_throw \<Rightarrow> Propagates Foreign_throw w))"
    if "p \<noteq> 0 \<and> heap w p = Some c \<and> interpreter c = Some interp"
    using that
    by (simp add: invoke_def invoke_try_def setInputTensor_def setInputTensor_try_def
        getOutputTensor_def getOutputTensor_try_def getInputTensorShape_def
        getInputTensorShape_try_def getOutputTensorShape_def getOutputTensorShape_try_def
        catch_std_exception_def LOGE_def LOG_TAG_def split: exn.splits)
  have create: "createInterpreter lib w md =
         (case e of
            Std_exception msg \<Rightarrow>
              Returns 0
                (w\<lparr>logcat := logcat w @
                     [\<lparr>prio = ANDROID_LOG_ERROR, tag = ''TFLiteUnity'',
                       fmt = ''Exception creating interpreter: %s'', args = [Str_arg msg]\<rparr>]\<rparr>)
          | Foreign_throw \<Rightarrow>
              Propagates Foreign_throw (w\<lparr>outstanding := md # outstanding w\<rparr>))"
    if h: "byte_arrays w md = Some bytes \<and> md \<notin> elements_refused w
        \<and> (new_address lib = Throw e
           \<or> new_address lib = Ret q \<and> heap w q = None
              \<and> (BuildFromBuffer lib bytes (length bytes) = Throw e
                 \<or> BuildFromBuffer lib bytes (length bytes) = Ret (Some m)
                    \<and> (InterpreterBuilder lib m = Throw e
                       \<or> InterpreterBuilder lib m = Ret (Some interp0)
                          \<and> AllocateTensors lib interp0 = Throw e)))"
  proof -
    let ?w1 = "w\<lparr>outstanding := md # outstanding w\<rparr>"
    from h consider "new_address lib = Throw e"
      | "new_address lib = Ret q" "heap w q = None"
        "BuildFromBuffer lib bytes (length bytes) = Throw e"
      | "new_address lib = Ret q" "heap w q = None"
        "BuildFromBuffer lib bytes (length bytes) = Ret (Some m)" "InterpreterBuilder lib m = Throw e"
      | "new_address lib = Ret q" "heap w q = None"
        "BuildFromBuffer lib bytes (length bytes) = Ret (Some m)"
        "InterpreterBuilder lib m = Ret (Some interp0)" "AllocateTensors lib interp0 = Throw e"
      by (elim conjE disjE) fast+
    then have "createInterpreter_try lib ?w1 md bytes (length bytes) = Propagates e ?w1"
    proof cases
      case 1
      then show ?thesis by (simp add: createInterpreter_try_def)
    next
      case 2
      then show ?thesis by (simp add: createInterpreter_try_def create_unwind)
    next
      case 3
      then show ?thesis by (simp add: createInterpreter_try_def create_unwind)
    next
      case 4
      then show ?thesis
        by (simp add: createInterpreter_try_def create_unwind)
    qed
    moreover have "createInterpreter lib w md =
        catch_std_exception
          (createInterpreter_try lib ?w1 md bytes (length bytes))
          (\<lambda>what w'. Returns 0
             (ReleaseByteArrayElements
                (LOGE ''Exception creating interpreter: %s'' [Str_arg what] w')
                md bytes JNI_ABORT))"
      using h by (simp add: createInterpreter_def GetByteArrayElements_def get_elements_def)
    ultimately show ?thesis
      by (simp add: catch_std_exception_def ReleaseByteArrayElements_def LOGE_def LOG_TAG_def
          split: exn.splits)
  qed
  show ?thesis
    by (intro conjI; (rule never | (rule impI, erule live) | (rule impI, erule create)))
qed

theorem std_exceptions_become_failure_signals_witness:
  "invoke throwing_world 4096 =
     Returns (- 1)
       (throwing_world\<lparr>logcat := logcat throwing_world @
          [\<lparr>prio = ANDROID_LOG_ERROR, tag = ''TFLiteUnity'',
            fmt = ''Exception during inference: %s'', args = [Str_arg ''bad kernel'']\<rparr>]\<rparr>)
   \<and> createInterpreter (throwing_lib 0 (Std_exception ''bad model'')) example_world 4 =
     Returns 0
       (example_world\<lparr>logcat := logcat example_world @
          [\<lparr>prio = ANDROID_LOG_ERROR, tag = ''TFLiteUnity'',
            fmt = ''Exception creating interpreter: %s'', args = [Str_arg ''bad model'']\<rparr>]\<rparr>)
   \<and> createInterpreter (throwing_lib 1 (Std_exception ''bad model'')) example_world 4 =
     Returns 0
       (example_world\<lparr>logcat := logcat example_world @
          [\<lparr>prio = ANDROID_LOG_ERROR, tag = ''TFLiteUnity'',
            fmt = ''Exception creating interpreter: %s'', args = [Str_arg ''bad model'']\<rparr>]\<rparr>)
   \<and> createInterpreter (throwing_lib 2 (Std_exception ''bad model'')) example_world 4 =
     Returns 0
       (example_world\<lparr>logcat := logcat example_world @
          [\<lparr>prio = ANDROID_LOG_ERROR, tag = ''TFLiteUnity'',
            fmt = ''Exception creating interpreter: %s'', args = [Str_arg ''bad model'']\<rparr>]\<rparr>)
   \<and> createInterpreter (throwing_lib 2 Foreign_throw) example_world 4 =
     Propagates Foreign_throw (example_world\<lparr>outstanding := 4 # outstanding example_world\<rparr>)"
proof -
  note T = std_exceptions_become_failure_signals
  note R = T [THEN conjunct2, THEN conjunct2, THEN conjunct2, THEN conjunct2, THEN conjunct2,
      THEN conjunct2, THEN conjunct2, THEN conjunct2, THEN conjunct2]
  have lt: "(4096 :: jlong) \<noteq> 0
      \<and> heap throwing_world 4096 = Some \<lparr>model = Some [], interpreter = Some throwing_interpreter\<rparr>
      \<and> interpreter \<lparr>model = Some [], interpreter = Some throwing_interpreter\<rparr>
          = Some throwing_interpreter"
    by (simp add: throwing_world_def)
  have inv: "Invoke throwing_interpreter (tensors throwing_interpreter) =
        (tensors throwing_interpreter, Throw (Std_exception ''bad kernel''))"
    by (simp add: throwing_interpreter_def)
  have same: "(heap throwing_world)(4096 \<mapsto>
        \<lparr>model = Some [], interpreter = Some throwing_interpreter\<rparr>) = heap throwing_world"
    by (rule fun_upd_idem) (simp add: throwing_world_def)
  have a: "invoke throwing_world 4096 =
     Returns (- 1)
       (throwing_world\<lparr>logcat := logcat throwing_world @
          [\<lparr>prio = ANDROID_LOG_ERROR, tag = ''TFLiteUnity'',
            fmt = ''Exception during inference: %s'', args = [Str_arg ''bad kernel'']\<rparr>]\<rparr>)"
    using R [THEN conjunct1, THEN mp, OF lt, THEN conjunct1, THEN mp, OF inv]
    by (simp add: same)
  have h: "byte_arrays example_world 4 = Some [1, 2, 3]"
    "4 \<notin> elements_refused example_world"
    "heap example_world 8192 = None"
    by (simp_all add: example_world_def)
  note C = R [THEN conjunct2, THEN mp]
  have b0: "createInterpreter (throwing_lib 0 (Std_exception ''bad model'')) example_world 4 =
     Returns 0
       (example_world\<lparr>logcat := logcat example_world @
          [\<lparr>prio = ANDROID_LOG_ERROR, tag = ''TFLiteUnity'',
            fmt = ''Exception creating interpreter: %s'', args = [Str_arg ''bad model'']\<rparr>]\<rparr>)"
    using C [of example_world 4 "[1, 2, 3]" "throwing_lib 0 (Std_exception ''bad model'')"
        "Std_exception ''bad model''" 8192 "[1, 2, 3]" example_interpreter] h
    by (simp add: throwing_lib_def)
  have b1: "createInterpreter (throwing_lib 1 (Std_exception ''bad model'')) example_world 4 =
     Returns 0
       (example_world\<lparr>logcat := logcat example_world @
          [\<lparr>prio = ANDROID_LOG_ERROR, tag = ''TFLiteUnity'',
            fmt = ''Exception creating interpreter: %s'', args = [Str_arg ''bad model'']\<rparr>]\<rparr>)"
    using C [of example_world 4 "[1, 2, 3]" "throwing_lib 1 (Std_exception ''bad model'')"
        "Std_exception ''bad model''" 8192 "[1, 2, 3]" example_interpreter] h
    by (simp add: throwing_lib_def)
  have b2: "createInterpreter (throwing_lib 2 (Std_exception ''bad model'')) example_world 4 =
     Returns 0
       (example_world\<lparr>logcat := logcat example_world @
          [\<lparr>prio = ANDROID_LOG_ERROR, tag = ''TFLiteUnity'',
            fmt = ''Exception creating interpreter: %s'', args = [Str_arg ''bad model'']\<rparr>]\<rparr>)"
    using C [of example_world 4 "[1, 2, 3]" "throwing_lib 2 (Std_exception ''bad model'')"
        "Std_exception ''bad model''" 8192 "[1, 2, 3]" example_interpreter] h
    by (simp add: throwing_lib_def)
  have f2: "createInterpreter (throwing_lib 2 Foreign_throw) example_world 4 =
     Propagates Foreign_throw (example_world\<lparr>outstanding := 4 # outstanding example_world\<rparr>)"
    using C [of example_world 4 "[1, 2, 3]" "throwing_lib 2 Foreign_throw"
        Foreign_throw 8192 "[1, 2, 3]" example_interpreter] h
    by (simp add: throwing_lib_def)
  show ?thesis using a b0 b1 b2 f2 by (intro conjI)
qed

text \<open>
  C2 as stated fails: an object thrown by \<open>Invoke\<close> that does not derive from
  \<open>std::exception\<close> passes the \<open>catch\<close> clause of \<open>invoke\<close> and reaches
  the caller.
\<close>

theorem foreign_throw_escapes_invoke:
  "invoke foreign_world 4096 = Propagates Foreign_throw foreign_world"
  by (simp add: invoke_def invoke_try_def catch_std_exception_def foreign_world_def
      foreign_interpreter_def example_world_def fun_upd_idem)

section \<open>Slot indices\<close>

text \<open>
  C4, as the code has it. For a live session, when the engine's lookup gives the null
  pointer for the index, \<open>setInputTensor\<close> and \<open>getOutputTensor\<close> return -1
  and change nothing but the log: no tensor buffer, no Java array, no outstanding
  element buffer. The pointer is checked before any use; the index itself is handed
  to the engine as it is and is never compared with the number of declared slots.
\<close>

theorem null_lookup_fails_without_copy:
  assumes "p \<noteq> 0" and "heap w p = Some c" and "interpreter c = Some interp"
  shows
   "(input_tensor interp (size_t_of_jint i) = Ret None \<longrightarrow>
       setInputTensor w p i a n =
         Returns (- 1) (LOGE ''Failed to get input tensor %d'' [Int_arg i] w))
    \<and> (output_tensor interp (size_t_of_jint i) = Ret None \<longrightarrow>
       getOutputTensor w p i a n =
         Returns (- 1) (LOGE ''Failed to get output tensor %d'' [Int_arg i] w))
    \<and> heap (LOGE f as w) = heap w
    \<and> float_arrays (LOGE f as w) = float_arrays w
    \<and> outstanding (LOGE f as w) = outstanding w"
  using assms
  by (simp add: setInputTensor_def setInputTensor_try_def getOutputTensor_def
      getOutputTensor_try_def catch_std_exception_def LOGE_def)

theorem null_lookup_fails_without_copy_witness:
  "setInputTensor example_world 4096 1 1 4 =
     Returns (- 1) (LOGE ''Failed to get input tensor %d'' [Int_arg 1] example_world)
   \<and> getOutputTensor example_world 4096 1 2 2 =
     Returns (- 1) (LOGE ''Failed to get output tensor %d'' [Int_arg 1] example_world)
   \<and> heap (LOGE ''Failed to get output tensor %d'' [Int_arg 1] example_world)
       = heap example_world
   \<and> float_arrays (LOGE ''Failed to get output tensor %d'' [Int_arg 1] example_world)
       = float_arrays example_world"
proof -
  have h1: "(4096 :: jlong) \<noteq> 0" by simp
  note t = null_lookup_fails_without_copy [OF h1 example_live]
  have a: "setInputTensor example_world 4096 1 1 4 =
     Returns (- 1) (LOGE ''Failed to get input tensor %d'' [Int_arg 1] example_world)"
    using t [THEN conjunct1, THEN mp, OF example_slots(2)] .
  have b: "getOutputTensor example_world 4096 1 2 2 =
     Returns (- 1) (LOGE ''Failed to get output tensor %d'' [Int_arg 1] example_world)"
    using t [THEN conjunct2, THEN conjunct1, THEN mp, OF example_slots(4)] .
  have c: "heap (LOGE ''Failed to get output tensor %d'' [Int_arg 1] example_world)
       = heap example_world"
    using t [THEN conjunct2, THEN conjunct2, THEN conjunct1] .
  have d: "float_arrays (LOGE ''Failed to get output tensor %d'' [Int_arg 1] example_world)
       = float_arrays example_world"
    using t [THEN conjunct2, THEN conjunct2, THEN conjunct2, THEN conjunct1] .
  show ?thesis using a b c d by (intro conjI)
qed

text \<open>
  C4 as stated fails: with one declared input and an engine whose lookup gives a
  tensor for index 1, \<open>setInputTensor\<close> with index 1 returns 0 and overwrites that
  tensor's buffer.
\<close>

theorem lenient_lookup_accepts_index_outside_range:
  "length (inputs lenient_interpreter) = 1
   \<and> sint (1 :: jint) = 1
   \<and> setInputTensor lenient_world 4096 1 1 4 =
       Returns 0
         (store_tensor lenient_world 4096
            \<lparr>model = Some [], interpreter = Some lenient_interpreter\<rparr> lenient_interpreter 0
            \<lparr>data_f = Some [10, 20, 30, 40], dims = [1, 4]\<rparr>)"
proof -
  have h: "heap lenient_world 4096 = Some \<lparr>model = Some [], interpreter = Some lenient_interpreter\<rparr>"
    "float_arrays lenient_world 1 = Some [10, 20, 30, 40]"
    "1 \<notin> elements_refused lenient_world"
    "input_tensor lenient_interpreter (size_t_of_jint 1) = Ret (Some 0)"
    "tensors lenient_interpreter 0 = Some \<lparr>data_f = Some [0, 0, 0, 0], dims = [1, 4]\<rparr>"
    by (simp_all add: lenient_world_def lenient_interpreter_def example_world_def
        example_interpreter_def example_tensors_def)
  have "setInputTensor lenient_world 4096 1 1 4 =
       Returns 0
         (store_tensor lenient_world 4096
            \<lparr>model = Some [], interpreter = Some lenient_interpreter\<rparr> lenient_interpreter 0
            \<lparr>data_f = Some [10, 20, 30, 40], dims = [1, 4]\<rparr>)"
    using setInputTensor_success [OF _ h(1) _ h(4) h(5) _ h(2) h(3), of "[0, 0, 0, 0]" 4]
    by simp
  then show ?thesis
    by (simp add: lenient_interpreter_def example_interpreter_def)
qed

section \<open>Determinism of a round\<close>

lemma invoke_live:
  assumes "p \<noteq> 0" and "heap w p = Some c" and "interpreter c = Some interp"
    and "Invoke interp (tensors interp) = (ts, r)"
  shows "invoke w p =
     (case r of
        Throw (Std_exception what) \<Rightarrow>
          Returns (- 1) (LOGE ''Exception during inference: %s'' [Str_arg what]
            (w\<lparr>heap := (heap w)(p \<mapsto> c\<lparr>interpreter := Some (interp\<lparr>tensors := ts\<rparr>)\<rparr>)\<rparr>))
      | Throw Foreign_throw \<Rightarrow>
          Propagates Foreign_throw
            (w\<lparr>heap := (heap w)(p \<mapsto> c\<lparr>interpreter := Some (interp\<lparr>tensors := ts\<rparr>)\<rparr>)\<rparr>)
      | Ret status \<Rightarrow>
          if status \<noteq> kTfLiteOk
          then Returns (- 1) (LOGE ''Failed to invoke interpreter'' []
            (w\<lparr>heap := (heap w)(p \<mapsto> c\<lparr>interpreter := Some (interp\<lparr>tensors := ts\<rparr>)\<rparr>)\<rparr>))
          else Returns 0
            (w\<lparr>heap := (heap w)(p \<mapsto> c\<lparr>interpreter := Some (interp\<lparr>tensors := ts\<rparr>)\<rparr>)\<rparr>))"
  using assms
  by (simp add: invoke_def invoke_try_def catch_std_exception_def
      split: call.splits exn.splits)

lemma getOutputTensor_live:
  assumes "p \<noteq> 0" and "heap w p = Some c" and "interpreter c = Some interp"
    and "output_tensor interp (size_t_of_jint j) = Ret (Some u)"
    and "float_arrays w out = Some ys" and "out \<notin> elements_refused w"
    and "0 \<le> sint m" and "length ys = nat (sint m)"
  shows "getOutputTensor w p j out m =
     (case map_option data_f (tensors interp u) of
        Some (Some so) \<Rightarrow>
          if nat (sint m) \<le> length so
          then Returns 0 (w\<lparr>float_arrays := (float_arrays w)(out \<mapsto> take (nat (sint m)) so)\<rparr>)
          else Undefined_behaviour
      | _ \<Rightarrow> Undefined_behaviour)"
  using assms
  by (simp add: getOutputTensor_def getOutputTensor_try_def catch_std_exception_def
      GetFloatArrayElements_def get_elements_def byte_count_nonneg memcpy_def
      ReleaseFloatArrayElements_def
      split: option.splits)

lemma inference_round_observed:
  assumes live: "p \<noteq> 0" "heap w p = Some c" "interpreter c = Some interp"
    and inp: "input_tensor interp (size_t_of_jint i) = Ret (Some t)"
      "tensors interp t = Some tin" "data_f tin = Some dst"
      "0 \<le> sint n" "length dst = nat (sint n)"
      "float_arrays w data = Some src" "nat (sint n) \<le> length src"
      "data \<notin> elements_refused w"
    and outp: "output_tensor interp (size_t_of_jint j) = Ret (Some u)"
      "float_arrays w out = Some ys" "out \<notin> elements_refused w"
      "0 \<le> sint m" "length ys = nat (sint m)"
    and inv: "Invoke interp ((tensors interp)(t \<mapsto> tin\<lparr>data_f := Some (take (nat (sint n)) src)\<rparr>))
       = (ts, r)"
  shows "observed_output out (inference_round w p i data n j out m) =
     (case r of
        Throw Foreign_throw \<Rightarrow> None
      | _ \<Rightarrow>
         (case map_option data_f (ts u) of
            Some (Some so) \<Rightarrow>
              if nat (sint m) \<le> length so
              then Some ((0, (if r = Ret kTfLiteOk then 0 else - 1), 0),
                         Some (take (nat (sint m)) so))
              else None
          | _ \<Rightarrow> None))"
proof -
  define T1 where "T1 = (tensors interp)(t \<mapsto> tin\<lparr>data_f := Some (take (nat (sint n)) src)\<rparr>)"
  define I1 where "I1 = interp\<lparr>tensors := T1\<rparr>"
  define c1 where "c1 = c\<lparr>interpreter := Some I1\<rparr>"
  define W1 where "W1 = w\<lparr>heap := (heap w)(p \<mapsto> c1)\<rparr>"
  define I2 where "I2 = I1\<lparr>tensors := ts\<rparr>"
  define c2 where "c2 = c1\<lparr>interpreter := Some I2\<rparr>"
  define W2 where "W2 = W1\<lparr>heap := (heap W1)(p \<mapsto> c2)\<rparr>"
  have s1: "setInputTensor w p i data n = Returns 0 W1"
    using setInputTensor_success [OF live inp(1,2,3) inp(6) inp(8) inp(4) inp(7)] inp(5)
    by (simp add: store_tensor_def W1_def c1_def I1_def T1_def)
  have l1: "heap W1 p = Some c1" "interpreter c1 = Some I1"
    "Invoke I1 (tensors I1) = (ts, r)"
    using inv by (simp_all add: W1_def c1_def I1_def T1_def)
  have s2: "invoke W1 p =
     (case r of
        Throw (Std_exception what) \<Rightarrow>
          Returns (- 1) (LOGE ''Exception during inference: %s'' [Str_arg what] W2)
      | Throw Foreign_throw \<Rightarrow> Propagates Foreign_throw W2
      | Ret status \<Rightarrow>
          if status \<noteq> kTfLiteOk
          then Returns (- 1) (LOGE ''Failed to invoke interpreter'' [] W2)
          else Returns 0 W2)"
    unfolding W2_def c2_def I2_def by (rule invoke_live [OF live(1) l1])
  have get: "getOutputTensor v p j out m =
     (case map_option data_f (ts u) of
        Some (Some so) \<Rightarrow>
          if nat (sint m) \<le> length so
          then Returns 0 (v\<lparr>float_arrays := (float_arrays v)(out \<mapsto> take (nat (sint m)) so)\<rparr>)
          else Undefined_behaviour
      | _ \<Rightarrow> Undefined_behaviour)"
    if "heap v p = Some c2" "float_arrays v = float_arrays w"
      "elements_refused v = elements_refused w" for v
  proof -
    have "interpreter c2 = Some I2" by (simp add: c2_def)
    moreover have "output_tensor I2 (size_t_of_jint j) = Ret (Some u)"
      using outp(1) by (simp add: I2_def I1_def)
    moreover have "tensors I2 u = ts u" by (simp add: I2_def)
    ultimately show ?thesis
      using getOutputTensor_live [OF live(1) that(1), of I2 j u out ys m] outp that(2,3)
      by simp
  qed
  have w2: "heap W2 p = Some c2" "float_arrays W2 = float_arrays w"
    "elements_refused W2 = elements_refused w"
    "heap (LOGE f as W2) p = Some c2" "float_arrays (LOGE f as W2) = float_arrays w"
    "elements_refused (LOGE f as W2) = elements_refused w" for f as
    by (simp_all add: W2_def W1_def LOGE_def)
  show ?thesis
  proof (cases r)
    case (Ret status)
    show ?thesis
      by (cases status)
        (simp_all add: Ret observed_output_def inference_round_def s1 s2 get w2
          split: option.splits)
  next
    case (Throw e)
    show ?thesis
      by (cases e)
        (simp_all add: Throw observed_output_def inference_round_def s1 s2 get w2
          split: option.splits)
  qed
qed

text \<open>
  C8. Two rounds of \<open>setInputTensor\<close>, \<open>invoke\<close>, \<open>getOutputTensor\<close> on
  the same session, started in two worlds (for instance before and after an earlier
  round): the engine is the same and deterministic, the source array holds the same
  data, the input length is the slot's element count, the output length is the length
  of the destination array, and the other input slots hold the same data. Then the
  caller observes the same in both: the same three statuses and the same contents of
  the output array, or in both cases no return. What the tensors, the destination and
  the log held before does not matter.
\<close>

theorem inference_round_deterministic:
  assumes nz: "p \<noteq> 0"
    and first: "heap w p = Some c" "interpreter c = Some interp"
    and second: "heap w' p = Some c'" "interpreter c' = Some interp'"
    and same_engine: "input_tensor interp' = input_tensor interp"
      "output_tensor interp' = output_tensor interp" "Invoke interp' = Invoke interp"
    and det: "engine_deterministic interp"
    and slots: "input_tensor interp (size_t_of_jint i) = Ret (Some t)" "t \<in> set (inputs interp)"
      "output_tensor interp (size_t_of_jint j) = Ret (Some u)" "u \<in> set (outputs interp)"
    and bufs: "tensors interp t = Some tin" "data_f tin = Some dst" "length dst = nat (sint n)"
      "tensors interp' t = Some tin'" "data_f tin' = Some dst'" "length dst' = nat (sint n)"
    and others: "\<forall>k \<in> set (inputs interp). k \<noteq> t \<longrightarrow>
        map_option data_f (tensors interp k) = map_option data_f (tensors interp' k)"
    and inbuf: "0 \<le> sint n" "nat (sint n) \<le> length src"
      "float_arrays w data = Some src" "float_arrays w' data = Some src"
      "data \<notin> elements_refused w" "data \<notin> elements_refused w'"
    and outbuf: "0 \<le> sint m" "length ys = nat (sint m)" "length ys' = nat (sint m)"
      "float_arrays w out = Some ys" "float_arrays w' out = Some ys'"
      "out \<notin> elements_refused w" "out \<notin> elements_refused w'"
  shows "observed_output out (inference_round w p i data n j out m) =
         observed_output out (inference_round w' p i data n j out m)"
proof -
  let ?T = "(tensors interp)(t \<mapsto> tin\<lparr>data_f := Some (take (nat (sint n)) src)\<rparr>)"
  let ?T' = "(tensors interp')(t \<mapsto> tin'\<lparr>data_f := Some (take (nat (sint n)) src)\<rparr>)"
  obtain ts r where inv: "Invoke interp ?T = (ts, r)" by (cases "Invoke interp ?T")
  obtain ts' r' where inv': "Invoke interp ?T' = (ts', r')" by (cases "Invoke interp ?T'")
  have agree: "\<forall>k \<in> set (inputs interp). map_option data_f (?T k) = map_option data_f (?T' k)"
    using others by simp
  have "snd (Invoke interp ?T) = snd (Invoke interp ?T') \<and>
        (\<forall>k \<in> set (outputs interp).
           map_option data_f (fst (Invoke interp ?T) k) =
           map_option data_f (fst (Invoke interp ?T') k))"
    using det agree unfolding engine_deterministic_def by blast
  then have same: "r' = r" "map_option data_f (ts' u) = map_option data_f (ts u)"
    using inv inv' slots(4) by simp_all
  have a: "observed_output out (inference_round w p i data n j out m) =
     (case r of
        Throw Foreign_throw \<Rightarrow> None
      | _ \<Rightarrow>
         (case map_option data_f (ts u) of
            Some (Some so) \<Rightarrow>
              if nat (sint m) \<le> length so
              then Some ((0, (if r = Ret kTfLiteOk then 0 else - 1), 0),
                         Some (take (nat (sint m)) so))
              else None
          | _ \<Rightarrow> None))"
    by (rule inference_round_observed [OF nz first slots(1) bufs(1,2) inbuf(1) bufs(3)
          inbuf(3) inbuf(2) inbuf(5) slots(3) outbuf(4) outbuf(6) outbuf(1) outbuf(2) inv])
  have b: "observed_output out (inference_round w' p i data n j out m) =
     (case r' of
        Throw Foreign_throw \<Rightarrow> None
      | _ \<Rightarrow>
         (case map_option data_f (ts' u) of
            Some (Some so) \<Rightarrow>
              if nat (sint m) \<le> length so
              then Some ((0, (if r' = Ret kTfLiteOk then 0 else - 1), 0),
                         Some (take (nat (sint m)) so))
              else None
          | _ \<Rightarrow> None))"
    using slots(1,3) inv'
    by (intro inference_round_observed [OF nz second _ bufs(4,5) inbuf(1) bufs(6)
          inbuf(4) inbuf(2) inbuf(6) _ outbuf(5) outbuf(7) outbuf(1) outbuf(3)])
       (simp_all add: same_engine)
  show ?thesis unfolding a b same ..
qed

lemma example_engine_deterministic:
  "engine_deterministic example_interpreter"
  by (simp add: engine_deterministic_def example_interpreter_def example_Invoke_def
      split: prod.splits)

lemma stale_live:
  "heap stale_world 4096 =
     Some (example_context\<lparr>interpreter := Some (example_interpreter\<lparr>tensors :=
            [0 \<mapsto> \<lparr>data_f = Some [5, 6, 7, 8], dims = [1, 4]\<rparr>,
             1 \<mapsto> \<lparr>data_f = Some [11, 15], dims = [1, 2]\<rparr>]\<rparr>)\<rparr>)"
  by (simp add: stale_world_def)

lemma example_round:
  "observed_output 2 (inference_round example_world 4096 0 1 4 0 2 2) =
     Some ((0, 0, 0), Some [30, 70])"
proof -
  have inv: "Invoke example_interpreter
      ((tensors example_interpreter)(0 \<mapsto> \<lparr>data_f = Some [0, 0, 0, 0], dims = [1, 4]\<rparr>
          \<lparr>data_f := Some (take (nat (sint (4 :: jint))) [10, 20, 30, 40])\<rparr>))
     = ((tensors example_interpreter)(0 \<mapsto> \<lparr>data_f = Some [10, 20, 30, 40], dims = [1, 4]\<rparr>,
          1 \<mapsto> \<lparr>data_f = Some [30, 70], dims = [1, 2]\<rparr>), Ret kTfLiteOk)"
    by (simp add: example_interpreter_def example_Invoke_def example_output_def)
  show ?thesis
    using inference_round_observed [OF _ example_live example_slots(1) example_slots(5) _ _ _
        example_arrays(1) _ example_arrays(3) example_slots(3) example_arrays(2)
        example_arrays(4) _ _ inv, of "[0, 0, 0, 0]" 2]
    by simp
qed

theorem inference_round_deterministic_witness:
  "observed_output 2 (inference_round example_world 4096 0 1 4 0 2 2) =
     observed_output 2 (inference_round stale_world 4096 0 1 4 0 2 2)
   \<and> observed_output 2 (inference_round stale_world 4096 0 1 4 0 2 2) =
     Some ((0, 0, 0), Some [30, 70])"
proof -
  have eq: "observed_output 2 (inference_round example_world 4096 0 1 4 0 2 2) =
     observed_output 2 (inference_round stale_world 4096 0 1 4 0 2 2)"
    by (rule inference_round_deterministic
          [where c = example_context and interp = example_interpreter
             and c' = "example_context\<lparr>interpreter := Some (example_interpreter\<lparr>tensors :=
                  [0 \<mapsto> \<lparr>data_f = Some [5, 6, 7, 8], dims = [1, 4]\<rparr>,
                   1 \<mapsto> \<lparr>data_f = Some [11, 15], dims = [1, 2]\<rparr>]\<rparr>)\<rparr>"
             and interp' = "example_interpreter\<lparr>tensors :=
                  [0 \<mapsto> \<lparr>data_f = Some [5, 6, 7, 8], dims = [1, 4]\<rparr>,
                   1 \<mapsto> \<lparr>data_f = Some [11, 15], dims = [1, 2]\<rparr>]\<rparr>"
             and t = 0 and u = 1
             and tin = "\<lparr>data_f = Some [0, 0, 0, 0], dims = [1, 4]\<rparr>" and dst = "[0, 0, 0, 0]"
             and tin' = "\<lparr>data_f = Some [5, 6, 7, 8], dims = [1, 4]\<rparr>" and dst' = "[5, 6, 7, 8]"
             and src = "[10, 20, 30, 40]" and ys = "[7, 7]" and ys' = "[11, 15]"])
       (simp_all add: example_live stale_live example_slots example_arrays
          example_engine_deterministic,
        simp_all add: example_interpreter_def stale_world_def example_world_def)
  show ?thesis using eq example_round by simp
qed

section \<open>Outside the caller's obligations\<close>

text \<open>
  The bridge does not reconcile a length with the buffers, and it does not track
  handles. A length beyond the slot or the array, a negative length (it becomes a
  byte count near \<open>2 ^ 64\<close>) and a handle that is neither 0 nor live are undefined
  behaviour, not a failure status.
\<close>

lemma byte_count_minus_one: "byte_count (- 1) = 2 ^ 64 - 4"
  by (simp add: byte_count_def size_t_of_jint_def sizeof_float_def)

lemma copy_beyond_the_buffers_is_undefined:
  "setInputTensor example_world 4096 0 1 5 = Undefined_behaviour"
  "setInputTensor example_world 4096 0 1 (- 1) = Undefined_behaviour"
  "getOutputTensor example_world 4096 0 2 3 = Undefined_behaviour"
  using example_live example_slots example_arrays
  by (simp_all add: setInputTensor_def setInputTensor_try_def getOutputTensor_def
      getOutputTensor_try_def catch_std_exception_def
      GetFloatArrayElements_def get_elements_def
      byte_count_nonneg byte_count_minus_one memcpy_def)

lemma dangling_handle_is_undefined:
  "setInputTensor example_world 12288 0 1 4 = Undefined_behaviour"
  "getInputTensorCount example_world 12288 = Undefined_behaviour"
  "destroyInterpreter example_world 12288 = Undefined_behaviour"
  by (simp_all add: setInputTensor_def getInputTensorCount_def destroyInterpreter_def
      example_world_def)

end
